theory Spec2Isabelle
  imports Complex_Main
begin

section \<open>JavaScript numbers\<close>

text \<open>
  The analysis functions of \<^verbatim>\<open>src/utils/aiAnalysis.ts\<close> compute with JavaScript
  numbers. A number is modelled as an exact real or one of the three special values
  of IEEE arithmetic, so that a division by zero is a visible result (\<open>PInf\<close>,
  \<open>NInf\<close> or \<open>NaN\<close>) instead of the \<open>0\<close> that HOL's \<open>x / 0\<close> returns.
  Rounding, overflow and the sign of zero are not modelled: finite arithmetic is exact
  and a zero divisor counts as \<open>+0\<close>. The exceptions are the z-score detector, the
  statistics calculator and the linear prediction with its slope, whose arithmetic is
  given with its rounding.

  The samples passed to the analysis functions are finite numbers (the panel checks
  \<^verbatim>\<open>isFinite\<close> before it calls them), so the input is a list of reals; a sensitivity
  is a finite number and a step count an integer. Arguments are always passed, the
  default values of omitted ones are not modelled.
\<close>

datatype jsnum = Num real | PInf | NInf | NaN

fun js_neg :: "jsnum \<Rightarrow> jsnum" where
  "js_neg (Num a) = Num (- a)"
| "js_neg PInf = NInf"
| "js_neg NInf = PInf"
| "js_neg NaN = NaN"

fun js_add :: "jsnum \<Rightarrow> jsnum \<Rightarrow> jsnum" where
  "js_add (Num a) (Num b) = Num (a + b)"
| "js_add (Num a) PInf = PInf"
| "js_add (Num a) NInf = NInf"
| "js_add PInf (Num b) = PInf"
| "js_add PInf PInf = PInf"
| "js_add PInf NInf = NaN"
| "js_add NInf (Num b) = NInf"
| "js_add NInf PInf = NaN"
| "js_add NInf NInf = NInf"
| "js_add NaN y = NaN"
| "js_add x NaN = NaN"

definition js_sub :: "jsnum \<Rightarrow> jsnum \<Rightarrow> jsnum" where
  "js_sub x y = js_add x (js_neg y)"

text \<open>The sign of an infinite product or quotient, from the sign of the finite operand.\<close>

definition signed_inf :: "bool \<Rightarrow> jsnum" where
  "signed_inf positive = (if positive then PInf else NInf)"

fun js_mul :: "jsnum \<Rightarrow> jsnum \<Rightarrow> jsnum" where
  "js_mul (Num a) (Num b) = Num (a * b)"
| "js_mul (Num a) PInf = (if a = 0 then NaN else signed_inf (0 < a))"
| "js_mul (Num a) NInf = (if a = 0 then NaN else signed_inf (a < 0))"
| "js_mul PInf (Num b) = (if b = 0 then NaN else signed_inf (0 < b))"
| "js_mul NInf (Num b) = (if b = 0 then NaN else signed_inf (b < 0))"
| "js_mul PInf PInf = PInf"
| "js_mul PInf NInf = NInf"
| "js_mul NInf PInf = NInf"
| "js_mul NInf NInf = PInf"
| "js_mul NaN y = NaN"
| "js_mul x NaN = NaN"

fun js_div :: "jsnum \<Rightarrow> jsnum \<Rightarrow> jsnum" where
  "js_div (Num a) (Num b) =
     (if b = 0 then (if a = 0 then NaN else signed_inf (0 < a)) else Num (a / b))"
| "js_div (Num a) PInf = Num 0"
| "js_div (Num a) NInf = Num 0"
| "js_div PInf (Num b) = signed_inf (0 \<le> b)"
| "js_div NInf (Num b) = signed_inf (b < 0)"
| "js_div PInf PInf = NaN"
| "js_div PInf NInf = NaN"
| "js_div NInf PInf = NaN"
| "js_div NInf NInf = NaN"
| "js_div NaN y = NaN"
| "js_div x NaN = NaN"

text \<open>\<^verbatim>\<open>a < b\<close> and \<^verbatim>\<open>a > b\<close>: every comparison with \<open>NaN\<close> is false.\<close>

fun js_lt :: "jsnum \<Rightarrow> jsnum \<Rightarrow> bool" where
  "js_lt (Num a) (Num b) = (a < b)"
| "js_lt (Num a) PInf = True"
| "js_lt NInf (Num b) = True"
| "js_lt NInf PInf = True"
| "js_lt x y = False"

definition js_gt :: "jsnum \<Rightarrow> jsnum \<Rightarrow> bool" where
  "js_gt x y = js_lt y x"

text \<open>\<^verbatim>\<open>Math.abs\<close>, \<^verbatim>\<open>Math.sqrt\<close>, \<^verbatim>\<open>Math.pow(x, 2)\<close>, \<^verbatim>\<open>Math.exp\<close>.\<close>

fun js_abs :: "jsnum \<Rightarrow> jsnum" where
  "js_abs (Num a) = Num \<bar>a\<bar>"
| "js_abs PInf = PInf"
| "js_abs NInf = PInf"
| "js_abs NaN = NaN"

fun js_sqrt :: "jsnum \<Rightarrow> jsnum" where
  "js_sqrt (Num a) = (if a < 0 then NaN else Num (sqrt a))"
| "js_sqrt PInf = PInf"
| "js_sqrt NInf = NaN"
| "js_sqrt NaN = NaN"

fun js_pow2 :: "jsnum \<Rightarrow> jsnum" where
  "js_pow2 (Num a) = Num (a * a)"
| "js_pow2 PInf = PInf"
| "js_pow2 NInf = PInf"
| "js_pow2 NaN = NaN"

fun js_exp :: "jsnum \<Rightarrow> jsnum" where
  "js_exp (Num a) = Num (exp a)"
| "js_exp PInf = PInf"
| "js_exp NInf = Num 0"
| "js_exp NaN = NaN"

text \<open>\<^verbatim>\<open>Math.min\<close> and \<^verbatim>\<open>Math.max\<close> return \<open>NaN\<close> when an argument is \<open>NaN\<close>.\<close>

definition js_min :: "jsnum \<Rightarrow> jsnum \<Rightarrow> jsnum" where
  "js_min x y = (if x = NaN \<or> y = NaN then NaN else if js_lt y x then y else x)"

definition js_max :: "jsnum \<Rightarrow> jsnum \<Rightarrow> jsnum" where
  "js_max x y = (if x = NaN \<or> y = NaN then NaN else if js_lt x y then y else x)"

text \<open>\<^verbatim>\<open>x || y\<close> on numbers: the falsy numbers are \<open>0\<close> and \<open>NaN\<close>.\<close>

definition js_or :: "jsnum \<Rightarrow> jsnum \<Rightarrow> jsnum" where
  "js_or x y = (if x = Num 0 \<or> x = NaN then y else x)"

text \<open>
  \<^verbatim>\<open>xs[i]\<close> read as a number: an index out of range yields \<^verbatim>\<open>undefined\<close>, which
  every arithmetic operator converts to \<open>NaN\<close>.
\<close>

definition js_nth :: "jsnum list \<Rightarrow> nat \<Rightarrow> jsnum" where
  "js_nth xs i = (if i < length xs then xs ! i else NaN)"

text \<open>\<^verbatim>\<open>xs[xs.length - 1]\<close>: the index \<open>-1\<close> of an empty array is out of range.\<close>

definition js_last :: "jsnum list \<Rightarrow> jsnum" where
  "js_last xs = (if xs = [] then NaN else last xs)"

text \<open>\<^verbatim>\<open>xs.slice(-k)\<close> for \<open>k > 0\<close>: the last \<open>k\<close> elements, all of them when there are fewer.\<close>

definition slice_last :: "nat \<Rightarrow> 'a list \<Rightarrow> 'a list" where
  "slice_last k xs = drop (length xs - k) xs"

text \<open>\<^verbatim>\<open>xs.slice(i, j)\<close> for \<open>0 \<le> i \<le> j\<close>.\<close>

definition slice :: "nat \<Rightarrow> nat \<Rightarrow> 'a list \<Rightarrow> 'a list" where
  "slice i j xs = take (j - i) (drop i xs)"

text \<open>\<^verbatim>\<open>data.reduce((a, b) => a + b, 0)\<close>.\<close>

definition js_sum :: "jsnum list \<Rightarrow> jsnum" where
  "js_sum xs = foldl (\<lambda>a b. js_add a b) (Num 0) xs"

text \<open>\<^verbatim>\<open>data.reduce((sum, val) => sum + Math.pow(val - mean, 2), 0)\<close>.\<close>

definition js_sum_sq_dev :: "jsnum \<Rightarrow> jsnum list \<Rightarrow> jsnum" where
  "js_sum_sq_dev mean xs =
     foldl (\<lambda>sum val. js_add sum (js_pow2 (js_sub val mean))) (Num 0) xs"

text \<open>\<^verbatim>\<open>Math.floor(n * c)\<close> for an array length \<open>n\<close> and a constant \<open>c \<ge> 0\<close>.\<close>

definition floor_mul :: "nat \<Rightarrow> real \<Rightarrow> nat" where
  "floor_mul n c = nat \<lfloor>real n * c\<rfloor>"

section \<open>The clock\<close>

text \<open>
  The detectors and the forecaster read \<^verbatim>\<open>Date.now()\<close> once for every record they
  push. The clock is an explicit argument: \<open>clock k\<close> is the value of the \<open>k\<close>-th
  reading (counted from \<open>0\<close>) made during the call, in milliseconds.
\<close>

type_synonym clock = "nat \<Rightarrow> int"

definition frozen_clock :: "int \<Rightarrow> clock" where
  "frozen_clock t k = t"

definition later :: "nat \<Rightarrow> clock \<Rightarrow> clock" where
  "later k clock j = clock (k + j)"

section \<open>Result records (\<^verbatim>\<open>src/types.ts\<close>)\<close>

record AnomalyResult =
  a_index :: nat
  a_value :: real
  a_timestamp :: int
  a_score :: jsnum
  a_method :: string

record TrendPrediction =
  p_timestamp :: int
  p_value :: jsnum
  p_confidence :: jsnum

datatype insight_type = Info | Warning | Critical

text \<open>
  The message of an insight is a template string; the model keeps which template it is
  and the values interpolated into it, and leaves their rendering as decimal text
  (\<^verbatim>\<open>toFixed\<close>) out.
\<close>

datatype message =
    NotEnoughData
  | AnomaliesDetected nat insight_type
  | LatestChange bool jsnum
  | OverallTrend bool jsnum
  | PredictedChange bool jsnum
  | AboveAverage jsnum jsnum
  | BelowAverage jsnum jsnum
  | HighVolatility jsnum
  | LowVolatility

record AIInsight =
  i_type :: insight_type
  i_message :: message
  i_confidence :: real

record Stats =
  s_mean :: jsnum
  s_median :: jsnum
  s_min :: jsnum
  s_max :: jsnum
  s_stdDev :: jsnum
  s_variance :: jsnum
  s_count :: nat

section \<open>TensorFlow.js\<close>

text \<open>
  The library is outside the repository. What the analysis functions need of it is
  taken as a parameter: whether the tensor operations that standardise the data, and
  the final \<^verbatim>\<open>dispose\<close> calls, raise an exception, and what the network trained by
  \<^verbatim>\<open>model.fit\<close> on the pairs \<open>(xs, ys)\<close> predicts for an input window (building,
  training and each prediction may raise as well). Training starts from random weights,
  so \<open>tf_fit\<close> stands for the outcome of training in one particular call. Tensor
  arithmetic is taken as exact, and a step of the rollout that raises does so before its
  point is pushed.
\<close>

datatype js_error = TfjsError

record tfjs =
  tf_tensor :: "js_error option"
  tf_dispose :: "js_error option"
  tf_fit :: "jsnum list list \<Rightarrow> jsnum list \<Rightarrow> js_error + (jsnum list \<Rightarrow> js_error + jsnum)"

text \<open>
  A \<^verbatim>\<open>try\<close> block evaluates to \<open>Inr\<close> of its result, or to \<open>Inl (e, k)\<close> when it raised
  \<open>e\<close> after \<open>k\<close> readings of the clock.
\<close>

type_synonym 'a attempt = "(js_error \<times> nat) + 'a"

section \<open>Z-score detector\<close>

text \<open>
  Whether constant data is flagged depends on whether the computed mean equals the
  samples exactly, so the arithmetic of this detector is written with its rounding:
  \<open>rnd\<close> maps the exact finite result of an operation to the number the operation
  returns. Exact arithmetic is \<open>rnd = Num\<close>.
\<close>

definition rounded :: "(real \<Rightarrow> jsnum) \<Rightarrow> jsnum \<Rightarrow> jsnum" where
  "rounded rnd x = (case x of Num v \<Rightarrow> rnd v | PInf \<Rightarrow> PInf | NInf \<Rightarrow> NInf | NaN \<Rightarrow> NaN)"

definition js_sum_rounded :: "(real \<Rightarrow> jsnum) \<Rightarrow> jsnum list \<Rightarrow> jsnum" where
  "js_sum_rounded rnd xs = foldl (\<lambda>a b. rounded rnd (js_add a b)) (Num 0) xs"

definition js_sum_sq_dev_rounded :: "(real \<Rightarrow> jsnum) \<Rightarrow> jsnum \<Rightarrow> jsnum list \<Rightarrow> jsnum" where
  "js_sum_sq_dev_rounded rnd mean xs =
     foldl (\<lambda>sum val. rounded rnd (js_add sum
                          (rounded rnd (js_pow2 (rounded rnd (js_sub val mean))))))
           (Num 0) xs"

text \<open>The body of the \<^verbatim>\<open>forEach\<close> callback of \<^verbatim>\<open>detectAnomaliesZScore\<close>.\<close>

definition zscore_visit ::
  "(real \<Rightarrow> jsnum) \<Rightarrow> clock \<Rightarrow> nat \<Rightarrow> jsnum \<Rightarrow> jsnum \<Rightarrow> real \<Rightarrow> AnomalyResult list \<Rightarrow>
   nat \<times> real \<Rightarrow> AnomalyResult list"
where
  "zscore_visit rnd clock len mean std sensitivity anomalies iv =
     (let index = fst iv; val = snd iv;
          zScore = js_abs (rounded rnd (js_div (rounded rnd (js_sub (Num val) mean))
                                               (js_or std (Num 1))))
      in if js_gt zScore (Num sensitivity)
         then anomalies @
              [\<lparr>a_index = index, a_value = val,
                a_timestamp = clock (length anomalies) - (int len - int index) * 1000,
                a_score = zScore, a_method = ''zscore''\<rparr>]
         else anomalies)"

definition detectAnomaliesZScore_rounded ::
  "(real \<Rightarrow> jsnum) \<Rightarrow> clock \<Rightarrow> real list \<Rightarrow> real \<Rightarrow> AnomalyResult list"
where
  "detectAnomaliesZScore_rounded rnd clock data sensitivity =
     (if length data < 3 then []
      else
        let mean = rounded rnd (js_div (js_sum_rounded rnd (map Num data))
                                       (Num (real (length data))));
            std = rounded rnd (js_sqrt (rounded rnd
                    (js_div (js_sum_sq_dev_rounded rnd mean (map Num data))
                            (Num (real (length data))))))
        in foldl (zscore_visit rnd clock (length data) mean std sensitivity) []
             (enumerate 0 data))"

text \<open>The detector in exact arithmetic.\<close>

definition detectAnomaliesZScore :: "clock \<Rightarrow> real list \<Rightarrow> real \<Rightarrow> AnomalyResult list" where
  "detectAnomaliesZScore clock data sensitivity =
     detectAnomaliesZScore_rounded Num clock data sensitivity"

section \<open>IQR detector\<close>

definition iqr_visit ::
  "clock \<Rightarrow> nat \<Rightarrow> jsnum \<Rightarrow> jsnum \<Rightarrow> jsnum \<Rightarrow> AnomalyResult list \<Rightarrow> nat \<times> real \<Rightarrow> AnomalyResult list"
where
  "iqr_visit clock len lowerBound upperBound iqr anomalies iv =
     (let index = fst iv; val = snd iv
      in if js_lt (Num val) lowerBound \<or> js_gt (Num val) upperBound
         then
           let distance = js_min (js_abs (js_sub (Num val) lowerBound))
                                 (js_abs (js_sub (Num val) upperBound))
           in anomalies @
              [\<lparr>a_index = index, a_value = val,
                a_timestamp = clock (length anomalies) - (int len - int index) * 1000,
                a_score = js_div distance iqr, a_method = ''iqr''\<rparr>]
         else anomalies)"

text \<open>
  \<^verbatim>\<open>[...data].sort((a, b) => a - b)\<close> sorts finite numbers in ascending order, which
  is \<open>sort\<close>.
\<close>

definition detectAnomaliesIQR :: "clock \<Rightarrow> real list \<Rightarrow> real \<Rightarrow> AnomalyResult list" where
  "detectAnomaliesIQR clock data sensitivity =
     (if length data < 4 then []
      else
        let sorted = map Num (sort data);
            q1Index = floor_mul (length sorted) 0.25;
            q3Index = floor_mul (length sorted) 0.75;
            q1 = js_nth sorted q1Index;
            q3 = js_nth sorted q3Index;
            iqr = js_sub q3 q1;
            lowerBound = js_sub q1 (js_mul (Num sensitivity) iqr);
            upperBound = js_add q3 (js_mul (Num sensitivity) iqr)
        in foldl (iqr_visit clock (length data) lowerBound upperBound iqr) []
             (enumerate 0 data))"

section \<open>Sliding-window detector\<close>

text \<open>
  The body of the \<^verbatim>\<open>for\<close> loop of \<^verbatim>\<open>detectAnomaliesML\<close>: the deviation of the
  standardised sample at \<open>i\<close> from the window before it, and the push.
\<close>

definition ml_error :: "jsnum list \<Rightarrow> nat \<Rightarrow> nat \<Rightarrow> jsnum" where
  "ml_error sequence windowSize i =
     (let window = slice (i - windowSize) i sequence;
          current = js_nth sequence i;
          windowMean = js_div (js_sum window) (Num (real (length window)));
          windowStd = js_sqrt (js_div (js_sum_sq_dev windowMean window)
                                      (Num (real (length window))))
      in js_div (js_abs (js_sub current windowMean)) (js_add windowStd (Num (1 / 10 ^ 7))))"

definition ml_visit ::
  "clock \<Rightarrow> real list \<Rightarrow> jsnum list \<Rightarrow> nat \<Rightarrow> jsnum \<Rightarrow> AnomalyResult list \<Rightarrow> nat \<Rightarrow> AnomalyResult list"
where
  "ml_visit clock data sequence windowSize threshold anomalies i =
     (let error = ml_error sequence windowSize i
      in if js_gt error threshold
         then anomalies @
              [\<lparr>a_index = i, a_value = data ! i,
                a_timestamp = clock (length anomalies) - (int (length data) - int i) * 1000,
                a_score = error, a_method = ''ml''\<rparr>]
         else anomalies)"

text \<open>The \<^verbatim>\<open>try\<close> block of \<^verbatim>\<open>detectAnomaliesML\<close>.\<close>

definition ml_try :: "tfjs \<Rightarrow> clock \<Rightarrow> real list \<Rightarrow> real \<Rightarrow> AnomalyResult list attempt" where
  "ml_try tf clock data sensitivity =
     (case tf_tensor tf of
        Some e \<Rightarrow> Inl (e, 0)
      | None \<Rightarrow>
          let mean = js_div (js_sum (map Num data)) (Num (real (length data)));
              std = js_sqrt (js_div (js_sum_sq_dev mean (map Num data))
                                    (Num (real (length data))));
              sequence = map (\<lambda>v. js_div (js_sub (Num v) mean) (js_add std (Num (1 / 10 ^ 7))))
                             data;
              windowSize = min 5 (length data div 3);
              threshold = js_mul (Num sensitivity) (Num 0.8);
              anomalies = foldl (ml_visit clock data sequence windowSize threshold) []
                                [windowSize ..< length data]
          in (case tf_dispose tf of
                Some e \<Rightarrow> Inl (e, length anomalies)
              | None \<Rightarrow> Inr anomalies))"

text \<open>
  The function is \<^verbatim>\<open>async\<close>: its promise is fulfilled with a list (\<open>Inr\<close>) or rejected
  with an exception (\<open>Inl\<close>). The \<^verbatim>\<open>catch\<close> clause calls the z-score detector, which
  goes on reading the clock where the \<^verbatim>\<open>try\<close> block stopped.
\<close>

definition detectAnomaliesML ::
  "tfjs \<Rightarrow> clock \<Rightarrow> real list \<Rightarrow> real \<Rightarrow> js_error + AnomalyResult list"
where
  "detectAnomaliesML tf clock data sensitivity =
     (if length data < 5 then Inr []
      else
        case ml_try tf clock data sensitivity of
          Inr anomalies \<Rightarrow> Inr anomalies
        | Inl (error, k) \<Rightarrow>
            Inr (detectAnomaliesZScore (later k clock) data (sensitivity * 10)))"

section \<open>Trend forecaster\<close>

text \<open>
  The linear prediction and its slope are written with their rounding, like the z-score
  detector: a sum of large samples overflows, and the blend of trend and mean is exact
  only up to rounding. A literal such as \<^verbatim>\<open>0.12\<close> denotes the number it rounds to; the
  lengths, indices and step numbers are integers and exact. \<^verbatim>\<open>Math.exp\<close> is taken as
  correctly rounded.
\<close>

text \<open>\<^verbatim>\<open>calculateSlope\<close>: the least-squares slope of the samples against their indices.\<close>

definition calculateSlope_rounded :: "(real \<Rightarrow> jsnum) \<Rightarrow> real list \<Rightarrow> jsnum" where
  "calculateSlope_rounded rnd data =
     (if length data < 2 then Num 0
      else
        let n = Num (real (length data));
            sumX = rounded rnd (js_div (rounded rnd (js_mul n (rounded rnd (js_sub n (Num 1)))))
                                       (Num 2));
            sumY = js_sum_rounded rnd (map Num data);
            sumXY = foldl (\<lambda>sum xy. rounded rnd (js_add sum
                              (rounded rnd (js_mul (Num (real (fst xy))) (Num (snd xy))))))
                          (Num 0) (enumerate 0 data);
            sumX2 = rounded rnd (js_div
                      (rounded rnd (js_mul
                         (rounded rnd (js_mul n (rounded rnd (js_sub n (Num 1)))))
                         (rounded rnd (js_sub (rounded rnd (js_mul (Num 2) n)) (Num 1)))))
                      (Num 6));
            denominator = rounded rnd (js_sub (rounded rnd (js_mul n sumX2))
                                              (rounded rnd (js_mul sumX sumX)))
        in if js_lt (js_abs denominator) (rnd 0.0001) then Num 0
           else rounded rnd (js_div
                  (rounded rnd (js_sub (rounded rnd (js_mul n sumXY))
                                       (rounded rnd (js_mul sumX sumY))))
                  denominator))"

text \<open>
  The body of the \<^verbatim>\<open>for\<close> loop of \<^verbatim>\<open>simpleLinearPrediction\<close>: the point computed
  at step \<open>i\<close> after \<open>k\<close> readings of the clock, and its push.
\<close>

definition linear_point_rounded ::
  "(real \<Rightarrow> jsnum) \<Rightarrow> clock \<Rightarrow> jsnum \<Rightarrow> jsnum \<Rightarrow> jsnum \<Rightarrow> int \<Rightarrow> nat \<Rightarrow> int \<Rightarrow> TrendPrediction"
where
  "linear_point_rounded rnd clock slope mean lastValue steps k i =
     (let trendValue = rounded rnd (js_add lastValue
                          (rounded rnd (js_mul slope (Num (of_int i)))));
          dampening = rounded rnd (js_exp
                        (rounded rnd (js_mul (js_neg (Num (of_int i))) (rnd 0.12))));
          predValue = rounded rnd (js_add
                        (rounded rnd (js_mul trendValue dampening))
                        (rounded rnd (js_mul mean (rounded rnd (js_sub (Num 1) dampening)))))
      in \<lparr>p_timestamp = clock k + i * 60000,
          p_value = predValue,
          p_confidence =
            js_max (rnd 0.3)
              (rounded rnd (js_sub (Num 1)
                 (rounded rnd (js_mul
                    (rounded rnd (js_div (Num (of_int i)) (Num (of_int steps))))
                    (rnd 0.6)))))\<rparr>)"

definition linear_visit_rounded ::
  "(real \<Rightarrow> jsnum) \<Rightarrow> clock \<Rightarrow> jsnum \<Rightarrow> jsnum \<Rightarrow> jsnum \<Rightarrow> int \<Rightarrow> TrendPrediction list \<Rightarrow>
   int \<Rightarrow> TrendPrediction list"
where
  "linear_visit_rounded rnd clock slope mean lastValue steps predictions i =
     predictions @
     [linear_point_rounded rnd clock slope mean lastValue steps (length predictions) i]"

text \<open>
  The step count is an integer; the loop \<^verbatim>\<open>for (let i = 1; i <= steps; i++)\<close> runs
  over \<open>[1..steps]\<close>, which is empty when \<open>steps < 1\<close>.
\<close>

definition simpleLinearPrediction_rounded ::
  "(real \<Rightarrow> jsnum) \<Rightarrow> clock \<Rightarrow> real list \<Rightarrow> int \<Rightarrow> TrendPrediction list"
where
  "simpleLinearPrediction_rounded rnd clock data steps =
     (let lookback = max 5 (floor_mul (length data) 0.3);
          recentData = slice_last lookback data;
          slope = calculateSlope_rounded rnd recentData;
          mean = rounded rnd (js_div (js_sum_rounded rnd (map Num recentData))
                                     (Num (real (length recentData))));
          lastValue = js_last (map Num data)
      in foldl (linear_visit_rounded rnd clock slope mean lastValue steps) [] [1..steps])"

text \<open>The same functions in exact arithmetic.\<close>

definition calculateSlope :: "real list \<Rightarrow> jsnum" where
  "calculateSlope = calculateSlope_rounded Num"

definition linear_point ::
  "clock \<Rightarrow> jsnum \<Rightarrow> jsnum \<Rightarrow> jsnum \<Rightarrow> int \<Rightarrow> nat \<Rightarrow> int \<Rightarrow> TrendPrediction"
where
  "linear_point = linear_point_rounded Num"

definition linear_visit ::
  "clock \<Rightarrow> jsnum \<Rightarrow> jsnum \<Rightarrow> jsnum \<Rightarrow> int \<Rightarrow> TrendPrediction list \<Rightarrow> int \<Rightarrow> TrendPrediction list"
where
  "linear_visit = linear_visit_rounded Num"

definition simpleLinearPrediction :: "clock \<Rightarrow> real list \<Rightarrow> int \<Rightarrow> TrendPrediction list" where
  "simpleLinearPrediction = simpleLinearPrediction_rounded Num"

text \<open>The confidence of a prediction of the trained network at step \<open>i\<close>.\<close>

definition ml_confidence :: "jsnum \<Rightarrow> jsnum \<Rightarrow> int \<Rightarrow> jsnum" where
  "ml_confidence predictedValue lastActualValue i =
     (let distance = js_abs (js_sub predictedValue lastActualValue);
          distanceRatio = js_div distance (js_add (js_abs lastActualValue) (Num 1));
          stepDecay = Num (0.92 ^ nat (i - 1));
          distancePenalty = js_max (Num 0) (js_sub (Num 1) (js_mul distanceRatio (Num 0.5)))
      in js_max (Num 0.4) (js_min (Num 0.95) (js_mul stepDecay distancePenalty)))"

text \<open>
  The autoregressive loop of \<^verbatim>\<open>predictTrend\<close> over the remaining steps, with the
  predictions made so far and the current input window as its state.
\<close>

fun rollout ::
  "(jsnum list \<Rightarrow> js_error + jsnum) \<Rightarrow> clock \<Rightarrow> jsnum \<Rightarrow> jsnum \<Rightarrow> jsnum \<Rightarrow>
   TrendPrediction list \<Rightarrow> jsnum list \<Rightarrow> int list \<Rightarrow> TrendPrediction list attempt"
where
  "rollout model clock mean normalizedStd lastActualValue predictions currentSequence [] =
     Inr predictions"
| "rollout model clock mean normalizedStd lastActualValue predictions currentSequence (i # rest) =
     (case model currentSequence of
        Inl e \<Rightarrow> Inl (e, length predictions)
      | Inr normalizedPrediction \<Rightarrow>
          let predictedValue = js_add (js_mul normalizedPrediction normalizedStd) mean
          in rollout model clock mean normalizedStd lastActualValue
               (predictions @
                [\<lparr>p_timestamp = clock (length predictions) + i * 60000,
                  p_value = predictedValue,
                  p_confidence = ml_confidence predictedValue lastActualValue i\<rparr>])
               (drop 1 currentSequence @ [normalizedPrediction]) rest)"

text \<open>
  The second half of the \<^verbatim>\<open>try\<close> block of \<^verbatim>\<open>predictTrend\<close>: the network is built
  and trained on \<open>(xs, ys)\<close>, rolled out from the seed window, and disposed of.
\<close>

definition fit_and_rollout ::
  "tfjs \<Rightarrow> clock \<Rightarrow> jsnum list list \<Rightarrow> jsnum list \<Rightarrow> jsnum \<Rightarrow> jsnum \<Rightarrow> jsnum \<Rightarrow>
   jsnum list \<Rightarrow> int \<Rightarrow> TrendPrediction list option attempt"
where
  "fit_and_rollout tf clock xs ys mean normalizedStd lastActualValue seed steps =
     (case tf_fit tf xs ys of
        Inl e \<Rightarrow> Inl (e, 0)
      | Inr model \<Rightarrow>
          (case rollout model clock mean normalizedStd lastActualValue [] seed [1..steps] of
             Inl ek \<Rightarrow> Inl ek
           | Inr predictions \<Rightarrow>
               (case tf_dispose tf of
                  Some e \<Rightarrow> Inl (e, length predictions)
                | None \<Rightarrow> Inr (Some predictions))))"

text \<open>
  The \<^verbatim>\<open>try\<close> block of \<^verbatim>\<open>predictTrend\<close>; \<open>Inr None\<close> is its early return into the
  linear prediction when fewer than three training pairs exist.
\<close>

definition predict_try ::
  "tfjs \<Rightarrow> clock \<Rightarrow> real list \<Rightarrow> int \<Rightarrow> TrendPrediction list option attempt"
where
  "predict_try tf clock data steps =
     (let lookback = min 30 (max 10 (floor_mul (length data) 0.3));
          trainingData = slice_last lookback data;
          mean = js_div (js_sum (map Num trainingData)) (Num (real (length trainingData)));
          std = js_sqrt (js_div (js_sum_sq_dev mean (map Num trainingData))
                                (Num (real (length trainingData))));
          normalizedStd = (if js_lt std (Num 0.01) then Num 1 else std);
          normalized = map (\<lambda>v. js_div (js_sub (Num v) mean) normalizedStd) trainingData;
          sequenceLength = 3;
          xs = map (\<lambda>i. slice (i - sequenceLength) i normalized)
                   [sequenceLength ..< length normalized];
          ys = map (\<lambda>i. js_nth normalized i) [sequenceLength ..< length normalized]
      in if length xs < 3 then Inr None
         else fit_and_rollout tf clock xs ys mean normalizedStd (js_last (map Num data))
                (slice_last sequenceLength normalized) steps)"

text \<open>
  The forecaster. The rounding is that of the linear prediction it falls back to; the
  arithmetic of the path through the network stays exact.
\<close>

definition predictTrend_rounded ::
  "(real \<Rightarrow> jsnum) \<Rightarrow> tfjs \<Rightarrow> clock \<Rightarrow> real list \<Rightarrow> int \<Rightarrow> js_error + TrendPrediction list"
where
  "predictTrend_rounded rnd tf clock data steps =
     (if length data < 5 then Inr (simpleLinearPrediction_rounded rnd clock data steps)
      else
        case predict_try tf clock data steps of
          Inr (Some predictions) \<Rightarrow> Inr predictions
        | Inr None \<Rightarrow> Inr (simpleLinearPrediction_rounded rnd clock data steps)
        | Inl (error, k) \<Rightarrow>
            Inr (simpleLinearPrediction_rounded rnd (later k clock) data steps))"

definition predictTrend ::
  "tfjs \<Rightarrow> clock \<Rightarrow> real list \<Rightarrow> int \<Rightarrow> js_error + TrendPrediction list"
where
  "predictTrend = predictTrend_rounded Num"

section \<open>Insight generator\<close>

text \<open>Each rule of \<^verbatim>\<open>generateAIInsights\<close> pushes at most one insight.\<close>

definition anomaly_rule :: "real list \<Rightarrow> AnomalyResult list \<Rightarrow> AIInsight list" where
  "anomaly_rule data anomalies =
     (if length anomalies > 0
      then
        let severity = (if real (length anomalies) > real (length data) * 0.1
                        then Critical else Warning)
        in [\<lparr>i_type = severity, i_message = AnomaliesDetected (length anomalies) severity,
              i_confidence = 0.9\<rparr>]
      else [])"

definition change_rule :: "jsnum \<Rightarrow> AIInsight list" where
  "change_rule change =
     (if js_gt (js_abs change) (Num 20)
      then [\<lparr>i_type = (if js_gt change (Num 0) then Info else Warning),
             i_message = LatestChange (js_gt change (Num 0)) (js_abs change),
             i_confidence = 0.85\<rparr>]
      else [])"

definition trend_rule :: "jsnum \<Rightarrow> AIInsight list" where
  "trend_rule trendChange =
     (if js_gt (js_abs trendChange) (Num 15)
      then [\<lparr>i_type = Info,
             i_message = OverallTrend (js_gt trendChange (Num 0)) (js_abs trendChange),
             i_confidence = 0.8\<rparr>]
      else [])"

definition prediction_rule :: "jsnum \<Rightarrow> TrendPrediction list \<Rightarrow> AIInsight list" where
  "prediction_rule mean predictions =
     (if length predictions > 0
      then
        let avgPrediction = js_div (foldl (\<lambda>sum p. js_add sum (p_value p)) (Num 0) predictions)
                                   (Num (real (length predictions)));
            predChange = js_mul (js_div (js_sub avgPrediction mean) mean) (Num 100)
        in if js_gt (js_abs predChange) (Num 10)
           then [\<lparr>i_type = (if js_gt (js_abs predChange) (Num 30) then Warning else Info),
                  i_message = PredictedChange (js_gt predChange (Num 0)) (js_abs predChange),
                  i_confidence = 0.75\<rparr>]
           else []
      else [])"

definition extreme_rule :: "jsnum \<Rightarrow> jsnum \<Rightarrow> AIInsight list" where
  "extreme_rule latest mean =
     (if js_gt latest (js_mul mean (Num 1.5))
      then [\<lparr>i_type = Info,
             i_message = AboveAverage latest
               (js_mul (js_div (js_sub latest mean) mean) (Num 100)),
             i_confidence = 0.9\<rparr>]
      else if js_lt latest (js_mul mean (Num 0.5))
      then [\<lparr>i_type = Warning,
             i_message = BelowAverage latest
               (js_mul (js_div (js_sub mean latest) mean) (Num 100)),
             i_confidence = 0.9\<rparr>]
      else [])"

definition volatility_of :: "real list \<Rightarrow> jsnum \<Rightarrow> jsnum" where
  "volatility_of data mean =
     js_div (js_sqrt (js_div (js_sum_sq_dev mean (map Num data)) (Num (real (length data)))))
            mean"

definition volatility_rule :: "jsnum \<Rightarrow> AIInsight list" where
  "volatility_rule volatility =
     (if js_gt volatility (Num 0.3)
      then [\<lparr>i_type = Warning, i_message = HighVolatility (js_mul volatility (Num 100)),
             i_confidence = 0.85\<rparr>]
      else if js_lt volatility (Num 0.05)
      then [\<lparr>i_type = Info, i_message = LowVolatility, i_confidence = 0.8\<rparr>]
      else [])"

text \<open>The quantities computed before the rules are evaluated.\<close>

definition mean_of :: "real list \<Rightarrow> jsnum" where
  "mean_of data = js_div (js_sum (map Num data)) (Num (real (length data)))"

definition latest_change :: "real list \<Rightarrow> jsnum" where
  "latest_change data =
     (let latest = js_nth (map Num data) (length data - 1);
          previous = js_nth (map Num data) (length data - 2)
      in js_mul (js_div (js_sub latest previous) previous) (Num 100))"

definition half_trend_change :: "real list \<Rightarrow> jsnum" where
  "half_trend_change data =
     (let firstHalf = slice 0 (length data div 2) data;
          secondHalf = drop (length data div 2) data;
          firstMean = js_div (js_sum (map Num firstHalf)) (Num (real (length firstHalf)));
          secondMean = js_div (js_sum (map Num secondHalf)) (Num (real (length secondHalf)))
      in js_mul (js_div (js_sub secondMean firstMean) firstMean) (Num 100))"

definition generateAIInsights ::
  "real list \<Rightarrow> AnomalyResult list \<Rightarrow> TrendPrediction list \<Rightarrow> AIInsight list"
where
  "generateAIInsights data anomalies predictions =
     (if length data < 2
      then [\<lparr>i_type = Info, i_message = NotEnoughData, i_confidence = 1\<rparr>]
      else
        let mean = mean_of data;
            latest = js_nth (map Num data) (length data - 1);
            change = latest_change data;
            trendChange = half_trend_change data
        in anomaly_rule data anomalies @ change_rule change @ trend_rule trendChange @
           prediction_rule mean predictions @ extreme_rule latest mean @
           volatility_rule (volatility_of data mean))"

section \<open>Statistics calculator\<close>

text \<open>
  The arithmetic of \<^verbatim>\<open>calculateStats\<close> is written with its rounding \<open>rnd\<close>, as that of
  the z-score detector is.
\<close>

definition calculateStats :: "(real \<Rightarrow> jsnum) \<Rightarrow> real list \<Rightarrow> Stats option" where
  "calculateStats rnd data =
     (if length data = 0 then None
      else
        let sorted = map Num (sort data);
            mean = rounded rnd (js_div (js_sum_rounded rnd (map Num data))
                                       (Num (real (length data))));
            median = js_nth sorted (length sorted div 2);
            min = js_nth sorted 0;
            max = js_nth sorted (length sorted - 1);
            variance = rounded rnd (js_div (js_sum_sq_dev_rounded rnd mean (map Num data))
                                           (Num (real (length data))));
            stdDev = rounded rnd (js_sqrt variance)
        in Some \<lparr>s_mean = mean, s_median = median, s_min = min, s_max = max,
                  s_stdDev = stdDev, s_variance = variance, s_count = length data\<rparr>)"

section \<open>Reference notions\<close>

text \<open>
  The population statistics and the z-score as the specification words them, over exact
  reals; the functions above are compared with them.
\<close>

definition pop_mean :: "real list \<Rightarrow> real" where
  "pop_mean xs = sum_list xs / real (length xs)"

definition pop_variance :: "real list \<Rightarrow> real" where
  "pop_variance xs = (\<Sum>x\<leftarrow>xs. (x - pop_mean xs)\<^sup>2) / real (length xs)"

definition pop_std :: "real list \<Rightarrow> real" where
  "pop_std xs = sqrt (pop_variance xs)"

definition zscore :: "real list \<Rightarrow> real \<Rightarrow> real" where
  "zscore xs x = \<bar>x - pop_mean xs\<bar> / (if pop_std xs = 0 then 1 else pop_std xs)"

text \<open>The record pushed for the \<open>k\<close>-th flagged sample \<open>iv = (index, value)\<close>.\<close>

definition zscore_record :: "clock \<Rightarrow> real list \<Rightarrow> nat \<Rightarrow> nat \<times> real \<Rightarrow> AnomalyResult" where
  "zscore_record clock data k iv =
     \<lparr>a_index = fst iv, a_value = snd iv,
      a_timestamp = clock k - (int (length data) - int (fst iv)) * 1000,
      a_score = Num (zscore data (snd iv)), a_method = ''zscore''\<rparr>"

text \<open>
  The processing times of \<^verbatim>\<open>zscore-anomaly-3.sql\<close>, the twenty samples of the
  specification's example.
\<close>

definition order_processing :: "real list" where
  "order_processing = [22.5, 24.3, 23.8, 25.7, 22.1, 26.4, 24.9, 23.2, 95.8, 25.5,
                       24.1, 22.8, 26.7, 23.5, 25.2, 24.8, 108.3, 23.9, 25.6, 22.4]"

text \<open>
  The quartiles, bounds and record of the IQR detector over exact reals: the elements of
  the sorted copy at the indices \<open>n div 4\<close> and \<open>3 * n div 4\<close>, and the bounds at
  \<open>k\<close> times the interquartile range beyond them.
\<close>

definition quartile1 :: "real list \<Rightarrow> real" where
  "quartile1 xs = sort xs ! (length xs div 4)"

definition quartile3 :: "real list \<Rightarrow> real" where
  "quartile3 xs = sort xs ! ((3 * length xs) div 4)"

definition lower_bound :: "real list \<Rightarrow> real \<Rightarrow> real" where
  "lower_bound xs k = quartile1 xs - k * (quartile3 xs - quartile1 xs)"

definition upper_bound :: "real list \<Rightarrow> real \<Rightarrow> real" where
  "upper_bound xs k = quartile3 xs + k * (quartile3 xs - quartile1 xs)"

definition iqr_record :: "clock \<Rightarrow> real list \<Rightarrow> real \<Rightarrow> nat \<Rightarrow> nat \<times> real \<Rightarrow> AnomalyResult" where
  "iqr_record clock data s k iv =
     \<lparr>a_index = fst iv, a_value = snd iv,
      a_timestamp = clock k - (int (length data) - int (fst iv)) * 1000,
      a_score = js_div (Num (min \<bar>snd iv - lower_bound data s\<bar> \<bar>snd iv - upper_bound data s\<bar>))
                       (Num (quartile3 data - quartile1 data)),
      a_method = ''iqr''\<rparr>"

text \<open>
  The fallback forecast as the specification words it: the ordinary least-squares slope
  of the samples against their indices \<open>0, 1, \<dots>\<close> (0 when the denominator is
  negligible), the recent window of \<open>max(5, floor(n * 0.3))\<close> samples, the raw trend
  value, its blend with the mean of the window, and the confidence.
\<close>

definition ols_slope :: "real list \<Rightarrow> real" where
  "ols_slope ys =
     (let n = real (length ys);
          sx = (\<Sum>i<length ys. real i);
          sy = sum_list ys;
          sxy = (\<Sum>i<length ys. real i * ys ! i);
          sxx = (\<Sum>i<length ys. (real i)\<^sup>2);
          denominator = n * sxx - sx * sx
      in if \<bar>denominator\<bar> < 0.0001 then 0 else (n * sxy - sx * sy) / denominator)"

definition recent_window :: "real list \<Rightarrow> real list" where
  "recent_window data = slice_last (max 5 (nat \<lfloor>real (length data) * 0.3\<rfloor>)) data"

definition linear_trend :: "real list \<Rightarrow> int \<Rightarrow> real" where
  "linear_trend data i = last data + ols_slope (recent_window data) * of_int i"

definition linear_value :: "real list \<Rightarrow> int \<Rightarrow> real" where
  "linear_value data i =
     linear_trend data i * exp (- 0.12 * of_int i)
       + pop_mean (recent_window data) * (1 - exp (- 0.12 * of_int i))"

definition linear_confidence :: "int \<Rightarrow> int \<Rightarrow> real" where
  "linear_confidence steps i = max 0.3 (1 - 0.6 * (of_int i / of_int steps))"

text \<open>
  Two instances of the library for the examples: one whose trained network has learned
  an alternating series, predicting the negation of the latest standardised value, and
  one whose every call raises.
\<close>

definition alternating_model :: "jsnum list \<Rightarrow> js_error + jsnum" where
  "alternating_model window = Inr (js_neg (js_last window))"

definition alternating_fit ::
  "jsnum list list \<Rightarrow> jsnum list \<Rightarrow> js_error + (jsnum list \<Rightarrow> js_error + jsnum)" where
  "alternating_fit xs ys = Inr alternating_model"

definition failing_fit ::
  "jsnum list list \<Rightarrow> jsnum list \<Rightarrow> js_error + (jsnum list \<Rightarrow> js_error + jsnum)" where
  "failing_fit xs ys = Inl TfjsError"

definition alternating_tfjs :: tfjs where
  "alternating_tfjs = \<lparr>tf_tensor = None, tf_dispose = None, tf_fit = alternating_fit\<rparr>"

definition broken_tfjs :: tfjs where
  "broken_tfjs = \<lparr>tf_tensor = Some TfjsError, tf_dispose = None, tf_fit = failing_fit\<rparr>"

text \<open>A result record without its time stamp.\<close>

definition anomaly_untimed :: "AnomalyResult \<Rightarrow> nat \<times> real \<times> jsnum \<times> string" where
  "anomaly_untimed a = (a_index a, a_value a, a_score a, a_method a)"

definition prediction_untimed :: "TrendPrediction \<Rightarrow> jsnum \<times> jsnum" where
  "prediction_untimed p = (p_value p, p_confidence p)"

text \<open>
  IEEE 754 double precision, rounding to nearest with ties to even: a real \<open>x\<close> is
  rounded to the nearest multiple of the unit in its last place, \<open>2\<close> to the power
  \<open>floor(log2 |x|) - 52\<close> (at least \<open>-1074\<close>, the subnormal spacing), and becomes an
  infinity when the rounded magnitude reaches \<open>2 ^ 1024\<close>.
\<close>

definition round_half_even :: "real \<Rightarrow> int" where
  "round_half_even q =
     (let f = \<lfloor>q\<rfloor>
      in if q - of_int f < 1 / 2 then f
         else if 1 / 2 < q - of_int f then f + 1
         else if even f then f else f + 1)"

definition double_ulp :: "real \<Rightarrow> real" where
  "double_ulp x = 2 powr of_int (max (\<lfloor>log 2 \<bar>x\<bar>\<rfloor> - 52) (- 1074))"

definition double_round :: "real \<Rightarrow> jsnum" where
  "double_round x =
     (if x = 0 then Num 0
      else
        let y = of_int (round_half_even (x / double_ulp x)) * double_ulp x
        in if 2 ^ 1024 \<le> \<bar>y\<bar> then signed_inf (0 < x) else Num y)"

text \<open>The double nearest to \<open>0.1\<close>, the value of the literal \<^verbatim>\<open>0.1\<close>.\<close>

definition tenth :: real where
  "tenth = 3602879701896397 / 2 ^ 55"

text \<open>The mean as the z-score detector computes it.\<close>

definition computed_mean :: "(real \<Rightarrow> jsnum) \<Rightarrow> real list \<Rightarrow> jsnum" where
  "computed_mean rnd data =
     rounded rnd (js_div (js_sum_rounded rnd (map Num data)) (Num (real (length data))))"

text \<open>The variance as \<^verbatim>\<open>calculateStats\<close> computes it, around the computed mean.\<close>

definition computed_variance :: "(real \<Rightarrow> jsnum) \<Rightarrow> real list \<Rightarrow> jsnum" where
  "computed_variance rnd data =
     rounded rnd (js_div (js_sum_sq_dev_rounded rnd (computed_mean rnd data) (map Num data))
                         (Num (real (length data))))"

text \<open>The points of a forecast come step 1 first: the \<open>k\<close>-th is stamped for step \<open>k + 1\<close>.\<close>

definition stamped :: "clock \<Rightarrow> TrendPrediction list \<Rightarrow> bool" where
  "stamped clock ps \<longleftrightarrow> (\<forall>k < length ps. p_timestamp (ps ! k) = clock k + (int k + 1) * 60000)"

text \<open>
  The exact values of the intermediate results of \<^verbatim>\<open>calculateStats\<close>, in the order
  in which they are computed: the partial sums of the samples, the mean, the deviations
  from it, their squares, the partial sums of the squares, and the variance. Where the
  rounding leaves each of them unchanged, no operation of the function rounds.
\<close>

definition partial_sums :: "real list \<Rightarrow> real list" where
  "partial_sums xs = map (\<lambda>k. sum_list (take (Suc k) xs)) [0 ..< length xs]"

definition stats_values :: "real list \<Rightarrow> real list" where
  "stats_values data =
     (let n = real (length data);
          mean = sum_list data / n;
          deviations = map (\<lambda>x. x - mean) data;
          squares = map (\<lambda>d. d * d) deviations
      in partial_sums data @ [mean] @ deviations @ squares @ partial_sums squares @
         [sum_list squares / n])"

text \<open>
  A large sample: \<open>2 ^ 1023\<close> is a double, and the sum of two of them is beyond the
  range of the doubles.
\<close>

definition huge :: real where
  "huge = 2 ^ 1023"

section \<open>Arithmetic on finite numbers\<close>

lemma js_sum_foldl: "foldl (\<lambda>a b. js_add a b) (Num s) (map Num xs) = Num (s + sum_list xs)"
  by (induction xs arbitrary: s) (simp_all add: add.assoc)

lemma js_sum_nums: "js_sum (map Num xs) = Num (sum_list xs)"
  by (simp add: js_sum_def js_sum_foldl)

lemma js_sum_sq_dev_foldl:
  "foldl (\<lambda>sum val. js_add sum (js_pow2 (js_sub val (Num m)))) (Num s) (map Num xs)
     = Num (s + (\<Sum>x\<leftarrow>xs. (x - m)\<^sup>2))"
  by (induction xs arbitrary: s) (simp_all add: js_sub_def add.assoc power2_eq_square)

lemma js_sum_sq_dev_nums: "js_sum_sq_dev (Num m) (map Num xs) = Num (\<Sum>x\<leftarrow>xs. (x - m)\<^sup>2)"
  by (simp add: js_sum_sq_dev_def js_sum_sq_dev_foldl)

lemma mean_nums:
  "xs \<noteq> [] \<Longrightarrow> js_div (js_sum (map Num xs)) (Num (real (length xs))) = Num (pop_mean xs)"
  by (simp add: js_sum_nums pop_mean_def)

lemma sum_sq_nonneg: "0 \<le> (\<Sum>x\<leftarrow>xs. (x - m)\<^sup>2)" for m :: real
  by (induction xs) simp_all

lemma pop_variance_nonneg: "0 \<le> pop_variance xs"
  by (simp add: pop_variance_def sum_sq_nonneg)

lemma pop_std_nonneg: "0 \<le> pop_std xs"
  by (simp add: pop_std_def pop_variance_nonneg)

lemma variance_nums:
  "xs \<noteq> [] \<Longrightarrow>
   js_div (js_sum_sq_dev (Num (pop_mean xs)) (map Num xs)) (Num (real (length xs)))
     = Num (pop_variance xs)"
  by (simp add: js_sum_sq_dev_nums pop_variance_def)

lemma std_nums:
  "xs \<noteq> [] \<Longrightarrow>
   js_sqrt (js_div (js_sum_sq_dev (Num (pop_mean xs)) (map Num xs)) (Num (real (length xs))))
     = Num (pop_std xs)"
  using pop_variance_nonneg [of xs] by (simp add: variance_nums pop_std_def)

lemma floor_mul_quarter: "floor_mul n (1 / 4) = n div 4"
proof -
  have "real n * (1 / 4) = real n / real 4" by simp
  then show ?thesis unfolding floor_mul_def by (simp only: floor_divide_of_nat_eq nat_int)
qed

section \<open>Loops that push records\<close>

text \<open>
  Every loop of the detectors and of the forecaster visits a list and appends a record
  for some of its elements, reading the clock once for each record.
\<close>

lemma visit_fold:
  assumes "\<And>acc iv. visit acc iv = (if P iv then acc @ [mk (length acc) iv] else acc)"
  shows "foldl visit acc ivs
           = acc @ map (\<lambda>(k, iv). mk k iv) (enumerate (length acc) (filter P ivs))"
proof (induction ivs arbitrary: acc)
  case Nil
  show ?case by simp
next
  case (Cons iv ivs)
  show ?case
  proof (cases "P iv")
    case True
    then show ?thesis using Cons [of "acc @ [mk (length acc) iv]"] by (simp add: assms)
  next
    case False
    then show ?thesis using Cons [of acc] by (simp add: assms)
  qed
qed

section \<open>The z-score detector computes the z-score\<close>

lemma zscore_score:
  "js_abs (js_div (js_sub (Num v) (Num (pop_mean xs))) (js_or (Num (pop_std xs)) (Num 1)))
     = Num (zscore xs v)"
  using pop_std_nonneg [of xs] by (simp add: js_or_def js_sub_def zscore_def)

lemma rounded_exact: "rounded Num x = x"
  by (cases x) (simp_all add: rounded_def)

lemma js_sum_rounded_exact: "js_sum_rounded Num xs = js_sum xs"
  by (simp add: js_sum_rounded_def js_sum_def rounded_exact)

lemma js_sum_sq_dev_rounded_exact: "js_sum_sq_dev_rounded Num m xs = js_sum_sq_dev m xs"
  by (simp add: js_sum_sq_dev_rounded_def js_sum_sq_dev_def rounded_exact)

text \<open>
  The defining equations of the linear prediction, its slope and the forecaster in exact
  arithmetic.
\<close>

lemma calculateSlope_exact:
  "calculateSlope data =
     (if length data < 2 then Num 0
      else
        let n = Num (real (length data));
            sumX = js_div (js_mul n (js_sub n (Num 1))) (Num 2);
            sumY = js_sum (map Num data);
            sumXY = foldl (\<lambda>sum xy. js_add sum (js_mul (Num (real (fst xy))) (Num (snd xy))))
                          (Num 0) (enumerate 0 data);
            sumX2 = js_div (js_mul (js_mul n (js_sub n (Num 1)))
                                   (js_sub (js_mul (Num 2) n) (Num 1))) (Num 6);
            denominator = js_sub (js_mul n sumX2) (js_mul sumX sumX)
        in if js_lt (js_abs denominator) (Num 0.0001) then Num 0
           else js_div (js_sub (js_mul n sumXY) (js_mul sumX sumY)) denominator)"
  unfolding calculateSlope_def calculateSlope_rounded_def rounded_exact js_sum_rounded_exact ..

lemma linear_point_exact:
  "linear_point clock slope mean lastValue steps k i =
     (let trendValue = js_add lastValue (js_mul slope (Num (of_int i)));
          dampening = js_exp (js_mul (js_neg (Num (of_int i))) (Num 0.12));
          predValue = js_add (js_mul trendValue dampening)
                             (js_mul mean (js_sub (Num 1) dampening))
      in \<lparr>p_timestamp = clock k + i * 60000,
          p_value = predValue,
          p_confidence =
            js_max (Num 0.3)
              (js_sub (Num 1) (js_mul (js_div (Num (of_int i)) (Num (of_int steps))) (Num 0.6)))\<rparr>)"
  unfolding linear_point_def linear_point_rounded_def rounded_exact ..

lemma linear_visit_exact:
  "linear_visit clock slope mean lastValue steps predictions i =
     predictions @ [linear_point clock slope mean lastValue steps (length predictions) i]"
  unfolding linear_visit_def linear_visit_rounded_def linear_point_def ..

lemma simpleLinearPrediction_exact:
  "simpleLinearPrediction clock data steps =
     (let lookback = max 5 (floor_mul (length data) 0.3);
          recentData = slice_last lookback data;
          slope = calculateSlope recentData;
          mean = js_div (js_sum (map Num recentData)) (Num (real (length recentData)));
          lastValue = js_last (map Num data)
      in foldl (linear_visit clock slope mean lastValue steps) [] [1..steps])"
  unfolding simpleLinearPrediction_def simpleLinearPrediction_rounded_def calculateSlope_def
    linear_visit_def rounded_exact js_sum_rounded_exact ..

lemma predictTrend_exact:
  "predictTrend tf clock data steps =
     (if length data < 5 then Inr (simpleLinearPrediction clock data steps)
      else
        case predict_try tf clock data steps of
          Inr (Some predictions) \<Rightarrow> Inr predictions
        | Inr None \<Rightarrow> Inr (simpleLinearPrediction clock data steps)
        | Inl (error, k) \<Rightarrow> Inr (simpleLinearPrediction (later k clock) data steps))"
  unfolding predictTrend_def predictTrend_rounded_def simpleLinearPrediction_def ..

lemma zscore_refines:
  assumes "3 \<le> length data"
  shows "detectAnomaliesZScore clock data s
           = map (\<lambda>(k, iv). zscore_record clock data k iv)
               (enumerate 0 (filter (\<lambda>iv. s < zscore data (snd iv)) (enumerate 0 data)))"
proof -
  from assms have ne: "data \<noteq> []" by auto
  have v: "zscore_visit Num clock (length data) (Num (pop_mean data)) (Num (pop_std data)) s acc iv
             = (if s < zscore data (snd iv)
                then acc @ [zscore_record clock data (length acc) iv] else acc)"
    for acc iv
    by (simp add: zscore_visit_def Let_def rounded_exact zscore_score js_gt_def
        zscore_record_def)
  show ?thesis
    using assms
      visit_fold [of "zscore_visit Num clock (length data) (Num (pop_mean data)) (Num (pop_std data)) s"
        "\<lambda>iv. s < zscore data (snd iv)" "zscore_record clock data" "[]" "enumerate 0 data",
        OF v]
    by (simp add: detectAnomaliesZScore_def detectAnomaliesZScore_rounded_def Let_def
        rounded_exact js_sum_rounded_exact js_sum_sq_dev_rounded_exact
        mean_nums [OF ne] std_nums [OF ne])
qed

lemma zscore_gt_iff:
  assumes "0 < pop_variance xs" "0 \<le> s"
  shows "s < zscore xs v \<longleftrightarrow> s\<^sup>2 * pop_variance xs < (v - pop_mean xs)\<^sup>2"
proof -
  have p: "0 < pop_std xs" using assms by (simp add: pop_std_def)
  have "s < zscore xs v \<longleftrightarrow> s * pop_std xs < \<bar>v - pop_mean xs\<bar>"
    using p by (simp add: zscore_def pos_less_divide_eq)
  also have "\<dots> \<longleftrightarrow> (s * pop_std xs)\<^sup>2 < \<bar>v - pop_mean xs\<bar>\<^sup>2"
  proof -
    have "\<not> \<bar>v - pop_mean xs\<bar> \<le> \<bar>s * pop_std xs\<bar>
            \<longleftrightarrow> \<not> (v - pop_mean xs)\<^sup>2 \<le> (s * pop_std xs)\<^sup>2"
      by (simp only: abs_le_square_iff)
    moreover have "\<bar>s * pop_std xs\<bar> = s * pop_std xs" using p assms by simp
    ultimately show ?thesis by (simp add: not_le)
  qed
  also have "\<dots> \<longleftrightarrow> s\<^sup>2 * pop_variance xs < (v - pop_mean xs)\<^sup>2"
    using assms by (simp add: power_mult_distrib pop_std_def)
  finally show ?thesis .
qed

section \<open>The order-processing example\<close>

lemma order_processing_length: "length order_processing = 20"
  by (simp add: order_processing_def)

lemma order_processing_mean: "pop_mean order_processing = 1283 / 40"
  by (simp add: pop_mean_def order_processing_def)

lemma order_processing_variance: "pop_variance order_processing = 4396863 / 8000"
  unfolding pop_variance_def order_processing_mean
  by (simp add: order_processing_def power2_eq_square)

lemma order_processing_flagged:
  "filter (\<lambda>iv. 3 < zscore order_processing (snd iv)) (enumerate 0 order_processing)
     = [(16, 108.3)]"
proof -
  have i: "3 < zscore order_processing v \<longleftrightarrow> 9 * (4396863 / 8000) < (v - 1283 / 40)\<^sup>2"
    for v
    using zscore_gt_iff [of order_processing 3 v]
    by (simp add: order_processing_variance order_processing_mean)
  show ?thesis
    unfolding i by (simp add: order_processing_def power2_eq_square)
qed

text \<open>
  C1, as the code has it. With sensitivity 3 the z-score detector flags exactly the
  sample at index 16 of the order-processing example, whatever the clock reads: its
  z-score, \<open>|108.3 - mean| / std\<close> with the population mean and standard deviation, is
  the only one above 3. The sample at index 8 has a z-score of about 2.72 and is not
  flagged. The score recorded for index 16 is that z-score.
\<close>

theorem zscore_order_processing:
  "map a_index (detectAnomaliesZScore clock order_processing 3) = [16] \<and>
   map a_score (detectAnomaliesZScore clock order_processing 3)
     = [Num (zscore order_processing 108.3)] \<and>
   zscore order_processing 95.8 < 3"
proof -
  have "\<not> 3 < zscore order_processing 95.8"
    using zscore_gt_iff [of order_processing 3 "95.8"]
    by (simp add: order_processing_variance order_processing_mean power2_eq_square)
  moreover have "zscore order_processing 95.8 \<noteq> 3"
  proof
    assume e: "zscore order_processing 95.8 = 3"
    have "0 < pop_std order_processing"
      by (simp add: pop_std_def order_processing_variance)
    with e have "\<bar>95.8 - pop_mean order_processing\<bar> = 3 * pop_std order_processing"
      by (simp add: zscore_def field_simps)
    then have "\<bar>95.8 - pop_mean order_processing\<bar>\<^sup>2 = 9 * pop_variance order_processing"
      by (simp add: pop_std_def power_mult_distrib pop_variance_nonneg)
    then show False
      by (simp add: order_processing_variance order_processing_mean power2_eq_square)
  qed
  ultimately have "zscore order_processing 95.8 < 3" by simp
  then show ?thesis
    by (simp add: zscore_refines order_processing_length order_processing_flagged
        zscore_record_def)
qed

text \<open>
  C1, as the specification states it, fails: the set of flagged indices of the
  order-processing example at sensitivity 3 is not \<open>{8, 16}\<close>.
\<close>

theorem zscore_order_processing_counterexample:
  "set (map a_index (detectAnomaliesZScore (frozen_clock 0) order_processing 3)) \<noteq> {8, 16}"
  by (simp add: zscore_refines order_processing_length order_processing_flagged
      zscore_record_def)

section \<open>The statistics calculator\<close>

lemma sorted_first_Min:
  fixes xs :: "real list"
  assumes "sorted xs" "xs \<noteq> []"
  shows "xs ! 0 = Min (set xs)"
proof -
  obtain y ys where xs: "xs = y # ys" using assms(2) by (cases xs) auto
  with assms(1) have "\<forall>z\<in>set xs. y \<le> z" by auto
  then have "Min (set xs) = y" using xs by (intro Min_eqI) auto
  then show ?thesis by (simp add: xs)
qed

lemma sorted_last_Max:
  fixes xs :: "real list"
  assumes "sorted xs" "xs \<noteq> []"
  shows "xs ! (length xs - 1) = Max (set xs)"
proof -
  have l: "xs ! (length xs - 1) = last xs" using assms(2) by (simp add: last_conv_nth)
  have "\<forall>z\<in>set xs. z \<le> last xs"
  proof
    fix z assume "z \<in> set xs"
    then obtain i where i: "i < length xs" "xs ! i = z" by (auto simp: in_set_conv_nth)
    then have "xs ! i \<le> xs ! (length xs - 1)"
      using assms(1) by (intro sorted_nth_mono) auto
    then show "z \<le> last xs" using i l by simp
  qed
  then have "Max (set xs) = last xs" using assms(2) by (intro Max_eqI) auto
  then show ?thesis using l by simp
qed

section \<open>The IQR detector\<close>

lemma floor_mul_three_quarters: "floor_mul n (3 / 4) = (3 * n) div 4"
proof -
  have "real n * (3 / 4) = real (3 * n) / real 4" by simp
  then show ?thesis unfolding floor_mul_def by (simp only: floor_divide_of_nat_eq nat_int)
qed

lemma js_min_nums: "js_min (Num a) (Num b) = Num (min a b)"
  by (simp add: js_min_def min_def)

lemma iqr_refines:
  assumes "4 \<le> length data"
  shows "detectAnomaliesIQR clock data s
           = map (\<lambda>(k, iv). iqr_record clock data s k iv)
               (enumerate 0 (filter (\<lambda>iv. snd iv < lower_bound data s \<or> upper_bound data s < snd iv)
                                    (enumerate 0 data)))"
proof -
  have i1: "length data div 4 < length data" and i3: "(3 * length data) div 4 < length data"
    using assms by auto
  have v: "iqr_visit clock (length data) (Num (lower_bound data s)) (Num (upper_bound data s))
             (Num (quartile3 data - quartile1 data)) acc iv
             = (if snd iv < lower_bound data s \<or> upper_bound data s < snd iv
                then acc @ [iqr_record clock data s (length acc) iv] else acc)"
    for acc iv
    by (simp add: iqr_visit_def Let_def js_gt_def js_sub_def js_min_nums iqr_record_def)
  have b: "detectAnomaliesIQR clock data s
        = foldl (iqr_visit clock (length data) (Num (lower_bound data s)) (Num (upper_bound data s))
             (Num (quartile3 data - quartile1 data))) [] (enumerate 0 data)"
    using assms i1 i3
    by (simp add: detectAnomaliesIQR_def Let_def floor_mul_quarter floor_mul_three_quarters
        js_nth_def js_sub_def lower_bound_def upper_bound_def quartile1_def quartile3_def)
  show ?thesis
    unfolding b
    using visit_fold [of "iqr_visit clock (length data) (Num (lower_bound data s)) (Num (upper_bound data s))
             (Num (quartile3 data - quartile1 data))"
        "\<lambda>iv. snd iv < lower_bound data s \<or> upper_bound data s < snd iv"
        "iqr_record clock data s" "[]" "enumerate 0 data", OF v]
    by simp
qed

text \<open>
  C6. The score of the IQR detector is the distance to the nearer bound divided by the
  interquartile range, with no guard: on \<open>[5, 5, 5, 5, 9]\<close> with sensitivity 2 both
  quartiles are 5, the range is 0, the sample 9 lies above the upper bound 5 and is
  flagged with the score \<open>4 / 0\<close>, which is \<open>Infinity\<close>.
\<close>

theorem iqr_zero_division:
  "detectAnomaliesIQR clock [5, 5, 5, 5, 9] 2
     = [\<lparr>a_index = 4, a_value = 9, a_timestamp = clock 0 - 1000, a_score = PInf,
         a_method = ''iqr''\<rparr>]"
proof -
  have q: "quartile1 [5, 5, 5, 5, 9] = 5" "quartile3 [5, 5, 5, 5, 9] = 5"
    by (simp_all add: quartile1_def quartile3_def)
  have l: "lower_bound [5, 5, 5, 5, 9] 2 = 5" "upper_bound [5, 5, 5, 5, 9] 2 = 5"
    by (simp_all add: lower_bound_def upper_bound_def q)
  show ?thesis
    by (simp add: iqr_refines l iqr_record_def q signed_inf_def)
qed

section \<open>The insight generator\<close>

text \<open>
  C9. On \<open>[10, 10]\<close> with no anomalies and no predictions the insight generator returns
  one insight, the low-volatility one of the volatility rule. The mean is 10, the change
  of the latest value, the change between the halves and the volatility are the finite
  number 0 (their divisors are 10), and the anomaly, latest-change, trend and prediction
  rules emit nothing.
\<close>

theorem insights_two_equal:
  "generateAIInsights [10, 10] [] []
     = [\<lparr>i_type = Info, i_message = LowVolatility, i_confidence = 0.8\<rparr>] \<and>
   mean_of [10, 10] = Num 10 \<and>
   latest_change [10, 10] = Num 0 \<and>
   half_trend_change [10, 10] = Num 0 \<and>
   volatility_of [10, 10] (mean_of [10, 10]) = Num 0 \<and>
   anomaly_rule [10, 10] [] = [] \<and>
   change_rule (latest_change [10, 10]) = [] \<and>
   trend_rule (half_trend_change [10, 10]) = [] \<and>
   prediction_rule (mean_of [10, 10]) [] = []"
proof -
  have m: "mean_of [10, 10] = Num 10" by (simp add: mean_of_def js_sum_def)
  have c: "latest_change [10, 10] = Num 0"
    by (simp add: latest_change_def js_nth_def js_sub_def)
  have t: "half_trend_change [10, 10] = Num 0"
    by (simp add: half_trend_change_def slice_def js_sum_def js_sub_def)
  have v: "volatility_of [10, 10] (Num 10) = Num 0"
    by (simp add: volatility_of_def js_sum_sq_dev_def js_sub_def)
  show ?thesis
    by (simp add: generateAIInsights_def m c t v anomaly_rule_def change_rule_def
        trend_rule_def prediction_rule_def extreme_rule_def volatility_rule_def
        js_gt_def js_nth_def)
qed

section \<open>Constant input in exact arithmetic\<close>

text \<open>
  With exact arithmetic the mean of \<open>n\<close> copies of \<open>c\<close> is \<open>c\<close>, every z-score is 0
  and no sample is flagged at a positive sensitivity.
\<close>

lemma zscore_constant_exact:
  assumes "0 < s"
  shows "detectAnomaliesZScore clock (replicate n c) s = []"
proof (cases "3 \<le> n")
  case False
  then show ?thesis
    by (simp add: detectAnomaliesZScore_def detectAnomaliesZScore_rounded_def)
next
  case True
  then have m: "pop_mean (replicate n c) = c" by (simp add: pop_mean_def sum_list_replicate)
  have z: "zscore (replicate n c) c = 0" by (simp add: zscore_def m)
  have "filter (\<lambda>iv. s < zscore (replicate n c) (snd iv)) (enumerate 0 (replicate n c)) = []"
    using assms by (auto simp: filter_empty_conv enumerate_eq_zip z dest!: set_zip_rightD)
  with True show ?thesis by (simp add: zscore_refines)
qed

section \<open>The linear forecast\<close>

lemma sum_indices: "(\<Sum>i<n. real i) = real n * (real n - 1) / 2"
  by (induction n) (simp_all add: field_simps)

lemma sum_index_squares: "(\<Sum>i<n. (real i)\<^sup>2) = real n * (real n - 1) * (2 * real n - 1) / 6"
  by (induction n) (simp_all add: field_simps power2_eq_square)

lemma sumXY_foldl:
  "foldl (\<lambda>sum xy. js_add sum (js_mul (Num (real (fst xy))) (Num (snd xy)))) (Num s)
         (enumerate k ys)
     = Num (s + (\<Sum>i<length ys. real (k + i) * ys ! i))"
proof (induction ys arbitrary: s k)
  case Nil
  show ?case by simp
next
  case (Cons y ys)
  have "(\<Sum>i<Suc (length ys). real (k + i) * (y # ys) ! i)
          = real k * y + (\<Sum>i<length ys. real (Suc k + i) * ys ! i)"
    unfolding length_Cons sum.lessThan_Suc_shift by simp
  then show ?case using Cons [of "s + real k * y" "Suc k"] by (simp add: add.assoc)
qed

lemma calculateSlope_refines: "calculateSlope ys = Num (ols_slope ys)"
proof (cases "length ys < 2")
  case True
  then have "length ys = 0 \<or> length ys = 1" by linarith
  then have "ols_slope ys = 0"
    by (auto simp: ols_slope_def Let_def)
  with True show ?thesis by (simp add: calculateSlope_exact)
next
  case False
  have xy: "foldl (\<lambda>sum xy. js_add sum (js_mul (Num (real (fst xy))) (Num (snd xy)))) (Num 0)
         (enumerate 0 ys) = Num (\<Sum>i<length ys. real i * ys ! i)"
    using sumXY_foldl [of 0 0 ys] by simp
  have o: "ols_slope ys =
     (let n = real (length ys);
          sx = n * (n - 1) / 2;
          sxx = n * (n - 1) * (2 * n - 1) / 6;
          denominator = n * sxx - sx * sx
      in if \<bar>denominator\<bar> < 0.0001 then 0
         else (n * (\<Sum>i<length ys. real i * ys ! i) - sx * sum_list ys) / denominator)"
    unfolding ols_slope_def sum_indices sum_index_squares Let_def ..
  show ?thesis
    unfolding calculateSlope_exact Let_def xy js_sum_nums o
    using False by (auto simp add: js_sub_def)
qed

lemma js_max_nums: "js_max (Num a) (Num b) = Num (max a b)"
  by (simp add: js_max_def max_def)

lemma linear_fold:
  "foldl (linear_visit clock slope mean lastValue steps) acc is
     = acc @ map (\<lambda>(k, i). linear_point clock slope mean lastValue steps k i)
               (enumerate (length acc) is)"
  using visit_fold [of "linear_visit clock slope mean lastValue steps" "\<lambda>i. True"
      "linear_point clock slope mean lastValue steps" acc "is"]
  by (simp add: linear_visit_exact)

lemma length_steps: "length [1..steps] = nat steps"
  by simp

lemma nth_steps: "k < nat steps \<Longrightarrow> [1..steps] ! k = int k + 1"
  by (simp add: nth_upto)

lemma simpleLinearPrediction_length: "length (simpleLinearPrediction clock data steps) = nat steps"
  by (simp add: simpleLinearPrediction_exact Let_def linear_fold)

lemma simpleLinearPrediction_nth:
  assumes "k < nat steps"
  shows "simpleLinearPrediction clock data steps ! k
           = linear_point clock (calculateSlope (recent_window data))
               (js_div (js_sum (map Num (recent_window data)))
                       (Num (real (length (recent_window data)))))
               (js_last (map Num data)) steps k (int k + 1)"
  using assms
  by (simp add: simpleLinearPrediction_exact Let_def linear_fold nth_enumerate_eq nth_steps
      recent_window_def floor_mul_def add.commute)

lemma linear_point_confidence:
  assumes "steps \<noteq> 0"
  shows "p_confidence (linear_point clock slope mean lastValue steps k i)
           = Num (linear_confidence steps i)"
  using assms
  by (simp add: linear_point_exact Let_def js_sub_def js_max_nums linear_confidence_def
      mult.commute)

lemma linear_point_timestamp:
  "p_timestamp (linear_point clock slope mean lastValue steps k i) = clock k + i * 60000"
  by (simp add: linear_point_exact Let_def)

lemma linear_point_value:
  "p_value (linear_point clock (Num sl) (Num m) (Num lv) steps k i)
     = Num ((lv + sl * of_int i) * exp (- 0.12 * of_int i) + m * (1 - exp (- 0.12 * of_int i)))"
  by (simp add: linear_point_exact Let_def js_sub_def mult.commute)

lemma recent_window_nonempty:
  assumes "data \<noteq> []"
  shows "recent_window data \<noteq> []"
proof -
  have "0 < length data" using assms by simp
  then have "length data - max 5 (nat \<lfloor>real (length data) * 0.3\<rfloor>) < length data"
    by linarith
  then show ?thesis unfolding recent_window_def slice_last_def by simp
qed

lemma linear_confidence_eq:
  assumes "1 \<le> i" "i \<le> steps"
  shows "linear_confidence steps i = 1 - 0.6 * (of_int i / of_int steps)"
proof -
  have "real_of_int i / real_of_int steps \<le> 1" using assms by simp
  then show ?thesis by (simp add: linear_confidence_def max_def)
qed

lemma linear_confidence_decreasing:
  assumes "1 \<le> i" "i < j" "j \<le> steps"
  shows "linear_confidence steps j < linear_confidence steps i"
proof -
  have "real_of_int i / real_of_int steps < real_of_int j / real_of_int steps"
    using assms by (simp add: divide_strict_right_mono)
  then show ?thesis using assms by (simp add: linear_confidence_eq)
qed

lemma linear_value_between:
  assumes "1 \<le> i"
  shows "min (linear_trend data i) (pop_mean (recent_window data)) \<le> linear_value data i"
    and "linear_value data i \<le> max (linear_trend data i) (pop_mean (recent_window data))"
proof -
  define d where "d = exp (- 0.12 * real_of_int i)"
  define t where "t = linear_trend data i"
  define m where "m = pop_mean (recent_window data)"
  have d: "0 < d" "d < 1" using assms by (simp_all add: d_def)
  have v: "linear_value data i = t * d + m * (1 - d)"
    by (simp add: linear_value_def d_def t_def m_def)
  have "min t m * d \<le> t * d" "min t m * (1 - d) \<le> m * (1 - d)"
    using d by (simp_all add: mult_right_mono)
  then have "min t m * d + min t m * (1 - d) \<le> t * d + m * (1 - d)" by linarith
  then show "min (linear_trend data i) (pop_mean (recent_window data)) \<le> linear_value data i"
    by (simp add: v algebra_simps t_def m_def)
  have "t * d \<le> max t m * d" "m * (1 - d) \<le> max t m * (1 - d)"
    using d by (simp_all add: mult_right_mono)
  then have "t * d + m * (1 - d) \<le> max t m * d + max t m * (1 - d)" by linarith
  then show "linear_value data i \<le> max (linear_trend data i) (pop_mean (recent_window data))"
    by (simp add: v algebra_simps t_def m_def)
qed

section \<open>The forecaster\<close>

lemma rollout_length:
  "rollout model clock mean std lv preds window steps = Inr ps
     \<Longrightarrow> length ps = length preds + length steps"
proof (induction steps arbitrary: preds window)
  case Nil
  then show ?case by simp
next
  case (Cons i rest)
  then show ?case by (auto simp: Let_def split: sum.splits)
qed

lemma fit_and_rollout_length:
  assumes "fit_and_rollout tf clock xs ys mean std lv seed steps = Inr (Some ps)"
  shows "length ps = nat steps"
proof -
  obtain model where "rollout model clock mean std lv [] seed [1..steps] = Inr ps"
    using assms
    by (auto simp: fit_and_rollout_def split: sum.splits option.splits)
  then show ?thesis using rollout_length by fastforce
qed

lemma predict_try_cases:
  assumes "predict_try tf clock data steps = Inr (Some ps)"
  shows "\<exists>xs ys mean std lv seed.
           fit_and_rollout tf clock xs ys mean std lv seed steps = Inr (Some ps)"
  using assms unfolding predict_try_def Let_def
  apply (split if_split_asm)
   apply (simp only: sum.inject option.distinct)
  apply blast
  done

lemma predict_try_length:
  assumes "predict_try tf clock data steps = Inr (Some ps)"
  shows "length ps = nat steps"
proof -
  obtain xs ys mean std lv seed
    where "fit_and_rollout tf clock xs ys mean std lv seed steps = Inr (Some ps)"
    using predict_try_cases [OF assms] by blast
  then show ?thesis by (rule fit_and_rollout_length)
qed

lemma predictTrend_returns:
  "\<exists>ps. predictTrend tf clock data steps = Inr ps \<and> length ps = nat steps"
proof (cases "predict_try tf clock data steps")
  case (Inl ek)
  then show ?thesis
    by (cases ek) (simp add: predictTrend_exact simpleLinearPrediction_length)
next
  case (Inr r)
  then show ?thesis
    using predict_try_length [of tf clock data steps]
    by (cases r) (auto simp: predictTrend_exact simpleLinearPrediction_length)
qed

lemma floor_mul_six: "floor_mul 6 (3 / 10) = 1"
  by (simp add: floor_mul_def)

lemma alternating_training:
  "predict_try alternating_tfjs (frozen_clock 0) [0, 2, 0, 2, 0, 2] steps
     = fit_and_rollout alternating_tfjs (frozen_clock 0)
         [[Num (- 1), Num 1, Num (- 1)], [Num 1, Num (- 1), Num 1], [Num (- 1), Num 1, Num (- 1)]]
         [Num 1, Num (- 1), Num 1] (Num 1) (Num 1) (Num 2) [Num 1, Num (- 1), Num 1] steps"
proof -
  have m: "pop_mean [0, 2, 0, 2, 0, 2] = 1" by (simp add: pop_mean_def)
  have v: "pop_std [0, 2, 0, 2, 0, 2] = 1" unfolding pop_std_def pop_variance_def m by simp
  have n: "[0, 2, 0, 2, 0, 2::real] \<noteq> []" by simp
  have w: "slice_last (min 30 (max 10 (floor_mul (length [0, 2, 0, 2, 0, 2::real]) (3 / 10))))
             [0, 2, 0, 2, 0, 2::real] = [0, 2, 0, 2, 0, 2]"
    by (simp add: slice_last_def)
  have u: "[3..<6] = [3, 4, 5]" by (simp add: upt_rec)
  show ?thesis
    unfolding predict_try_def Let_def
    apply (simp only: w mean_nums [OF n, unfolded m] std_nums [OF n, unfolded m v])
    apply (simp add: js_sub_def slice_def slice_last_def js_nth_def js_last_def u)
    done
qed

text \<open>
  C3, as the specification states it, fails on the path through the trained network:
  the confidence there is a step decay times a penalty for the distance of the forecast
  from the last sample, and it rises when the second forecast is nearer than the first.
  On the alternating series \<open>[0, 2, 0, 2, 0, 2]\<close> a network that has learned the
  alternation forecasts 0 and then 2, with confidences \<open>2 / 3\<close> and \<open>0.92\<close>.
\<close>

theorem alternating_confidence_rises:
  "predictTrend alternating_tfjs (frozen_clock 0) [0, 2, 0, 2, 0, 2] 2
     = Inr [\<lparr>p_timestamp = 60000, p_value = Num 0, p_confidence = Num (2 / 3)\<rparr>,
            \<lparr>p_timestamp = 120000, p_value = Num 2, p_confidence = Num (92 / 100)\<rparr>]"
proof -
  have s: "[1..2] = [1, 2::int]" by (simp add: upto_rec1)
  have c1: "ml_confidence (Num 0) (Num 2) 1 = Num (2 / 3)"
    by (simp add: ml_confidence_def js_sub_def js_max_nums js_min_def)
  have c2: "ml_confidence (Num 2) (Num 2) 2 = Num (92 / 100)"
    by (simp add: ml_confidence_def js_sub_def js_max_nums js_min_def)
  have r: "fit_and_rollout alternating_tfjs (frozen_clock 0)
         [[Num (- 1), Num 1, Num (- 1)], [Num 1, Num (- 1), Num 1], [Num (- 1), Num 1, Num (- 1)]]
         [Num 1, Num (- 1), Num 1] (Num 1) (Num 1) (Num 2) [Num 1, Num (- 1), Num 1] 2
       = Inr (Some [\<lparr>p_timestamp = 60000, p_value = Num 0, p_confidence = Num (2 / 3)\<rparr>,
            \<lparr>p_timestamp = 120000, p_value = Num 2, p_confidence = Num (92 / 100)\<rparr>])"
    by (simp add: fit_and_rollout_def alternating_tfjs_def alternating_fit_def s
        alternating_model_def js_last_def c1 c2 frozen_clock_def)
  show ?thesis
    by (simp add: predictTrend_exact alternating_training r)
qed

text \<open>
  C8, as the code has it. The forecaster does not validate the step count: for a
  negative or zero step count it returns the empty forecast, and for no arguments does
  it signal a failure.
\<close>

theorem nonpositive_steps_empty:
  "(steps \<le> 0 \<longrightarrow> predictTrend tf clock data steps = Inr []) \<and>
   (\<forall>e. predictTrend tf clock data steps \<noteq> Inl e)"
  using predictTrend_returns [of tf clock data steps] by auto

text \<open>
  C8 at the step count \<open>-1\<close> on the alternating series, where the network is trained.
\<close>

theorem nonpositive_steps_empty_witness:
  "(- 1::int) \<le> 0 \<and>
   predictTrend alternating_tfjs (frozen_clock 0) [0, 2, 0, 2, 0, 2] (- 1) = Inr [] \<and>
   predictTrend alternating_tfjs (frozen_clock 0) [0, 2, 0, 2, 0, 2] (- 1) \<noteq> Inl TfjsError"
  using nonpositive_steps_empty [of "- 1" alternating_tfjs "frozen_clock 0" "[0, 2, 0, 2, 0, 2]"]
  by simp

text \<open>
  C8, as the specification states it, fails: with the step count \<open>-1\<close> the forecaster
  returns normally, with the empty forecast, instead of rejecting the call.
\<close>

theorem negative_steps_counterexample:
  "predictTrend broken_tfjs (frozen_clock 0) [1, 2, 3] (- 1) = Inr []"
  using predictTrend_returns [of broken_tfjs "frozen_clock 0" "[1, 2, 3]" "- 1"] by auto

section \<open>What depends on the clock\<close>

lemma later_zero: "later 0 clock = clock"
  by (rule ext) (simp add: later_def)

lemma map_enumerate_untimed:
  assumes "\<And>k iv. f (mk k iv) = h iv"
  shows "map f (map (\<lambda>(k, iv). mk k iv) (enumerate n xs)) = map h xs"
  by (induction xs arbitrary: n) (simp_all add: assms)

lemma visit_fold_untimed:
  assumes "\<And>acc iv. visit acc iv = (if P iv then acc @ [mk (length acc) iv] else acc)"
    and "\<And>k iv. f (mk k iv) = h iv"
  shows "map f (foldl visit [] ivs) = map h (filter P ivs)"
  unfolding visit_fold [of visit P mk "[]" ivs, OF assms(1)]
  using map_enumerate_untimed [of f mk h, OF assms(2)] by simp

lemma zscore_untimed:
  "map anomaly_untimed (detectAnomaliesZScore clock data s)
     = map anomaly_untimed (detectAnomaliesZScore clock' data s)"
proof (cases "3 \<le> length data")
  case False
  then show ?thesis
    by (simp add: detectAnomaliesZScore_def detectAnomaliesZScore_rounded_def)
next
  case True
  have "map anomaly_untimed (detectAnomaliesZScore c data s)
          = map (\<lambda>iv. (fst iv, snd iv, Num (zscore data (snd iv)), ''zscore''))
              (filter (\<lambda>iv. s < zscore data (snd iv)) (enumerate 0 data))" for c
    unfolding zscore_refines [OF True]
    by (rule map_enumerate_untimed) (simp add: anomaly_untimed_def zscore_record_def)
  then show ?thesis by simp
qed

lemma iqr_untimed:
  "map anomaly_untimed (detectAnomaliesIQR clock data s)
     = map anomaly_untimed (detectAnomaliesIQR clock' data s)"
proof (cases "4 \<le> length data")
  case False
  then show ?thesis by (simp add: detectAnomaliesIQR_def)
next
  case True
  have "map anomaly_untimed (detectAnomaliesIQR c data s)
          = map (\<lambda>iv. anomaly_untimed (iqr_record (frozen_clock 0) data s 0 iv))
              (filter (\<lambda>iv. snd iv < lower_bound data s \<or> upper_bound data s < snd iv)
                      (enumerate 0 data))" for c
    unfolding iqr_refines [OF True]
    by (rule map_enumerate_untimed) (simp add: anomaly_untimed_def iqr_record_def)
  then show ?thesis by simp
qed

lemma ml_loop_untimed:
  "map anomaly_untimed (foldl (ml_visit clock data sequence w thr) [] is)
     = map (\<lambda>i. (i, data ! i, ml_error sequence w i, ''ml''))
           (filter (\<lambda>i. js_gt (ml_error sequence w i) thr) is)"
  by (rule visit_fold_untimed
      [where mk = "\<lambda>k i. \<lparr>a_index = i, a_value = data ! i,
                a_timestamp = clock k - (int (length data) - int i) * 1000,
                a_score = ml_error sequence w i, a_method = ''ml''\<rparr>"])
    (simp_all add: ml_visit_def Let_def anomaly_untimed_def)

lemma ml_loop_length:
  "length (foldl (ml_visit clock data sequence w thr) [] is)
     = length (filter (\<lambda>i. js_gt (ml_error sequence w i) thr) is)"
  using ml_loop_untimed [of clock data sequence w thr "is", THEN arg_cong, of length]
  by simp

lemma ml_try_untimed:
  "map_sum (\<lambda>ek. ek) (map anomaly_untimed) (ml_try tf clock data s)
     = map_sum (\<lambda>ek. ek) (map anomaly_untimed) (ml_try tf clock' data s)"
  by (simp add: ml_try_def Let_def ml_loop_untimed ml_loop_length split: option.splits)

lemma ml_untimed:
  "map_sum (\<lambda>e. e) (map anomaly_untimed) (detectAnomaliesML tf clock data s)
     = map_sum (\<lambda>e. e) (map anomaly_untimed) (detectAnomaliesML tf clock' data s)"
proof (cases "length data < 5")
  case True
  then show ?thesis by (simp add: detectAnomaliesML_def)
next
  case False
  show ?thesis
  proof (cases "ml_try tf clock data s")
    case (Inl ek)
    then obtain ek' where "ml_try tf clock' data s = Inl ek'"
      using ml_try_untimed [of tf clock data s clock'] by (cases "ml_try tf clock' data s") auto
    with Inl False show ?thesis
      using zscore_untimed
      by (cases ek; cases ek') (simp add: detectAnomaliesML_def)
  next
    case (Inr r)
    then obtain r' where "ml_try tf clock' data s = Inr r'"
      and "map anomaly_untimed r = map anomaly_untimed r'"
      using ml_try_untimed [of tf clock data s clock'] by (cases "ml_try tf clock' data s") auto
    with Inr False show ?thesis by (simp add: detectAnomaliesML_def)
  qed
qed

lemma linear_untimed:
  "map prediction_untimed (simpleLinearPrediction clock data steps)
     = map prediction_untimed (simpleLinearPrediction clock' data steps)"
proof -
  have "map prediction_untimed (foldl (linear_visit c sl m lv steps) [] is)
          = map (\<lambda>i. prediction_untimed (linear_point (frozen_clock 0) sl m lv steps 0 i)) is"
    for c sl m lv "is"
    unfolding linear_fold append_Nil list.size
    by (rule map_enumerate_untimed
        [where h = "\<lambda>i. prediction_untimed (linear_point (frozen_clock 0) sl m lv steps 0 i)"])
      (simp add: prediction_untimed_def linear_point_exact Let_def)
  then show ?thesis by (simp add: simpleLinearPrediction_exact Let_def)
qed

lemma rollout_untimed:
  assumes "map prediction_untimed preds = map prediction_untimed preds'"
  shows "map_sum (\<lambda>ek. ek) (map prediction_untimed)
           (rollout model clock mean std lv preds window steps)
         = map_sum (\<lambda>ek. ek) (map prediction_untimed)
           (rollout model clock' mean std lv preds' window steps)"
  using assms
proof (induction steps arbitrary: preds preds' window)
  case Nil
  then show ?case by simp
next
  case (Cons i rest)
  from Cons.prems have l: "length preds = length preds'" by (rule map_eq_imp_length_eq)
  show ?case
  proof (cases "model window")
    case (Inl e)
    then show ?thesis by (simp add: l)
  next
    case (Inr np)
    define v where "v = js_add (js_mul np std) mean"
    define p where "p = \<lparr>p_timestamp = clock (length preds) + i * 60000, p_value = v,
                         p_confidence = ml_confidence v lv i\<rparr>"
    define p' where "p' = \<lparr>p_timestamp = clock' (length preds') + i * 60000, p_value = v,
                          p_confidence = ml_confidence v lv i\<rparr>"
    have "prediction_untimed p = prediction_untimed p'"
      by (simp add: prediction_untimed_def p_def p'_def)
    then have "map prediction_untimed (preds @ [p]) = map prediction_untimed (preds' @ [p'])"
      using Cons.prems by simp
    then have "map_sum (\<lambda>ek. ek) (map prediction_untimed)
                 (rollout model clock mean std lv (preds @ [p]) (drop 1 window @ [np]) rest)
               = map_sum (\<lambda>ek. ek) (map prediction_untimed)
                 (rollout model clock' mean std lv (preds' @ [p']) (drop 1 window @ [np]) rest)"
      by (rule Cons.IH)
    then show ?thesis
      using Inr by (simp add: Let_def p_def p'_def v_def)
  qed
qed

lemma fit_and_rollout_untimed:
  "map_sum (\<lambda>ek. ek) (map_option (map prediction_untimed))
     (fit_and_rollout tf clock xs ys mean std lv seed steps)
   = map_sum (\<lambda>ek. ek) (map_option (map prediction_untimed))
     (fit_and_rollout tf clock' xs ys mean std lv seed steps)"
proof (cases "tf_fit tf xs ys")
  case (Inl e)
  then show ?thesis by (simp add: fit_and_rollout_def)
next
  case (Inr model)
  have r: "map_sum (\<lambda>ek. ek) (map prediction_untimed)
           (rollout model clock mean std lv [] seed [1..steps])
         = map_sum (\<lambda>ek. ek) (map prediction_untimed)
           (rollout model clock' mean std lv [] seed [1..steps])"
    by (rule rollout_untimed) simp
  show ?thesis
  proof (cases "rollout model clock mean std lv [] seed [1..steps]")
    case (Inl ek)
    then have "rollout model clock' mean std lv [] seed [1..steps] = Inl ek"
      using r by (cases "rollout model clock' mean std lv [] seed [1..steps]") auto
    with Inl Inr show ?thesis by (simp add: fit_and_rollout_def)
  next
    case ps: (Inr ps)
    then obtain ps' where p': "rollout model clock' mean std lv [] seed [1..steps] = Inr ps'"
      and e: "map prediction_untimed ps = map prediction_untimed ps'"
      using r by (cases "rollout model clock' mean std lv [] seed [1..steps]") auto
    from e have "length ps = length ps'" by (rule map_eq_imp_length_eq)
    with ps p' e Inr show ?thesis
      by (simp add: fit_and_rollout_def split: option.splits)
  qed
qed

lemma if_else_cong: "f a = f b \<Longrightarrow> f (if c then z else a) = f (if c then z else b)"
  by simp

lemma predict_try_untimed:
  "map_sum (\<lambda>ek. ek) (map_option (map prediction_untimed)) (predict_try tf clock data steps)
   = map_sum (\<lambda>ek. ek) (map_option (map prediction_untimed)) (predict_try tf clock' data steps)"
  unfolding predict_try_def Let_def
  by (rule if_else_cong [where f = "map_sum (\<lambda>ek. ek) (map_option (map prediction_untimed))"])
    (rule fit_and_rollout_untimed)

lemma predictTrend_untimed:
  "map_sum (\<lambda>e. e) (map prediction_untimed) (predictTrend tf clock data steps)
     = map_sum (\<lambda>e. e) (map prediction_untimed) (predictTrend tf clock' data steps)"
proof (cases "length data < 5")
  case True
  then show ?thesis using linear_untimed by (simp add: predictTrend_exact)
next
  case False
  note u = predict_try_untimed [of tf clock data steps clock']
  show ?thesis
  proof (cases "predict_try tf clock data steps")
    case (Inl ek)
    then obtain ek' where "predict_try tf clock' data steps = Inl ek'"
      using u by (cases "predict_try tf clock' data steps") auto
    with Inl False show ?thesis
      using linear_untimed by (cases ek; cases ek') (simp add: predictTrend_exact)
  next
    case (Inr r)
    then obtain r' where r': "predict_try tf clock' data steps = Inr r'"
      and e: "map_option (map prediction_untimed) r = map_option (map prediction_untimed) r'"
      using u by (cases "predict_try tf clock' data steps") auto
    show ?thesis
    proof (cases r)
      case None
      with e have "r' = None" by simp
      with None Inr r' False show ?thesis using linear_untimed by (simp add: predictTrend_exact)
    next
      case (Some ps)
      with e obtain ps' where "r' = Some ps'" "map prediction_untimed ps = map prediction_untimed ps'"
        by (cases r') auto
      with Some Inr r' False show ?thesis by (simp add: predictTrend_exact)
    qed
  qed
qed

text \<open>
  C7, as the code has it. The result of every detector and of the forecaster is a
  function of its arguments, of the readings of the clock and, where TensorFlow.js is
  used, of the outcome of the library calls. Two calls with the same input, the same
  parameters and the same library outcome agree on the shape of the result and on every
  field other than the time stamp, whatever the clocks read.
\<close>

theorem results_agree_up_to_timestamps:
  "map anomaly_untimed (detectAnomaliesZScore clock data s)
     = map anomaly_untimed (detectAnomaliesZScore clock' data s) \<and>
   map anomaly_untimed (detectAnomaliesIQR clock data s)
     = map anomaly_untimed (detectAnomaliesIQR clock' data s) \<and>
   map_sum (\<lambda>e. e) (map anomaly_untimed) (detectAnomaliesML tf clock data s)
     = map_sum (\<lambda>e. e) (map anomaly_untimed) (detectAnomaliesML tf clock' data s) \<and>
   map prediction_untimed (simpleLinearPrediction clock data steps)
     = map prediction_untimed (simpleLinearPrediction clock' data steps) \<and>
   map_sum (\<lambda>e. e) (map prediction_untimed) (predictTrend tf clock data steps)
     = map_sum (\<lambda>e. e) (map prediction_untimed) (predictTrend tf clock' data steps)"
  by (intro conjI zscore_untimed iqr_untimed ml_untimed linear_untimed predictTrend_untimed)

lemma spike_flagged:
  "detectAnomaliesZScore clock [0, 0, 0, 0, 5] (3 / 2)
     = [\<lparr>a_index = 4, a_value = 5, a_timestamp = clock 0 - 1000, a_score = Num 2,
         a_method = ''zscore''\<rparr>]"
proof -
  have m: "pop_mean [0, 0, 0, 0, 5] = 1" by (simp add: pop_mean_def)
  have v: "pop_variance [0, 0, 0, 0, 5] = 4" unfolding pop_variance_def m by simp
  have q: "sqrt 4 = 2" using real_sqrt_abs [of 2] by simp
  have sd: "pop_std [0, 0, 0, 0, 5] = 2" by (simp add: pop_std_def v q)
  have z: "zscore [0, 0, 0, 0, 5] x = \<bar>x - 1\<bar> / 2" for x
    by (simp add: zscore_def m sd)
  show ?thesis
    by (simp add: zscore_refines z zscore_record_def)
qed

text \<open>
  C7, as the specification states it, fails: the time stamps are read from the clock,
  so two calls of the z-score detector with identical input and sensitivity, one second
  apart, return different records.
\<close>

theorem timestamps_differ_counterexample:
  "detectAnomaliesZScore (frozen_clock 0) [0, 0, 0, 0, 5] (3 / 2)
     \<noteq> detectAnomaliesZScore (frozen_clock 1000) [0, 0, 0, 0, 5] (3 / 2)"
  by (simp add: spike_flagged frozen_clock_def)

text \<open>
  C5. When a TensorFlow.js call of the sliding-window detector raises, in the tensor
  operations before the loop or in the disposal after it, the detector returns, without
  an error, the result of the z-score detector on the same input with ten times the
  sensitivity. The z-score detector reads the clock after the \<open>k\<close> readings of the
  failed attempt (none when the tensor operations raised), which touches the time stamps
  only.
\<close>

theorem ml_failure_falls_back:
  assumes "5 \<le> length data" and "tf_tensor tf \<noteq> None \<or> tf_dispose tf \<noteq> None"
  shows "\<exists>k. detectAnomaliesML tf clock data s
               = Inr (detectAnomaliesZScore (later k clock) data (s * 10)) \<and>
             (tf_tensor tf \<noteq> None \<longrightarrow> k = 0) \<and>
             map anomaly_untimed (detectAnomaliesZScore (later k clock) data (s * 10))
               = map anomaly_untimed (detectAnomaliesZScore clock data (s * 10))"
proof (cases "tf_tensor tf")
  case (Some e)
  with assms(1) have "detectAnomaliesML tf clock data s
               = Inr (detectAnomaliesZScore (later 0 clock) data (s * 10))"
    by (simp add: detectAnomaliesML_def ml_try_def)
  then show ?thesis using zscore_untimed by blast
next
  case None
  from None assms(2) obtain e where d: "tf_dispose tf = Some e" by auto
  from None d obtain k where "ml_try tf clock data s = Inl (e, k)"
    by (simp add: ml_try_def Let_def)
  with assms(1) have a: "detectAnomaliesML tf clock data s
               = Inr (detectAnomaliesZScore (later k clock) data (s * 10))"
    by (simp add: detectAnomaliesML_def)
  have b: "tf_tensor tf \<noteq> None \<longrightarrow> k = 0" using None by simp
  have c: "map anomaly_untimed (detectAnomaliesZScore (later k clock) data (s * 10))
             = map anomaly_untimed (detectAnomaliesZScore clock data (s * 10))"
    by (rule zscore_untimed)
  from a b c show ?thesis by blast
qed

text \<open>
  C5 with a library whose tensor operations raise: on \<open>[0, 0, 0, 0, 5]\<close> at sensitivity
  0.15 the result is that of the z-score detector at sensitivity 1.5.
\<close>

theorem ml_failure_falls_back_witness:
  "5 \<le> length [0, 0, 0, 0, 5::real] \<and> tf_tensor broken_tfjs \<noteq> None \<and>
   detectAnomaliesML broken_tfjs (frozen_clock 0) [0, 0, 0, 0, 5] (3 / 20)
     = Inr [\<lparr>a_index = 4, a_value = 5, a_timestamp = - 1000, a_score = Num 2,
              a_method = ''zscore''\<rparr>]"
  using ml_failure_falls_back [of "[0, 0, 0, 0, 5]" broken_tfjs "frozen_clock 0" "3 / 20"]
  by (auto simp add: broken_tfjs_def later_zero spike_flagged frozen_clock_def)

section \<open>Constant input under double rounding\<close>

lemma double_round_eval:
  assumes "lo = 2 powr of_int k" and "- 1022 \<le> k"
    and "lo \<le> \<bar>x\<bar>" and "\<bar>x\<bar> < 2 * lo"
    and "u = 2 powr of_int (k - 52)"
    and "round_half_even (x / u) = m"
    and "\<bar>of_int m * u\<bar> < 2 ^ 1024"
  shows "double_round x = Num (of_int m * u)"
proof -
  have lo: "0 < lo" using assms(1) by simp
  then have x: "0 < \<bar>x\<bar>" using assms(3) by linarith
  have "2 powr (of_int k + 1) = 2 * lo" using assms(1) by (simp add: powr_add)
  then have "\<lfloor>log 2 \<bar>x\<bar>\<rfloor> = k"
    using x assms(1,3,4) by (simp add: floor_log_eq_powr_iff)
  moreover have "max (k - 52) (- 1074) = k - 52" using assms(2) by simp
  ultimately have "double_ulp x = u"
    using assms(5) by (simp only: double_ulp_def)
  then show ?thesis
    using x assms(6,7) by (auto simp: double_round_def Let_def)
qed

lemma round_tenth: "double_round tenth = Num tenth"
  using double_round_eval [of "1 / 2 ^ 4" "- 4" tenth "1 / 2 ^ 56" 7205759403792794]
  by (simp add: tenth_def powr_minus round_half_even_def)

lemma tenth_literal: "double_round (1 / 10) = Num tenth"
  using double_round_eval [of "1 / 2 ^ 4" "- 4" "1 / 10" "1 / 2 ^ 56" 7205759403792794]
  by (simp add: tenth_def powr_minus round_half_even_def)

lemma round_two_tenths: "double_round (tenth + tenth) = Num (2 * tenth)"
  using double_round_eval [of "1 / 2 ^ 3" "- 3" "tenth + tenth" "1 / 2 ^ 55" 7205759403792794]
  by (simp add: tenth_def powr_minus round_half_even_def)

lemma round_three_tenths:
  "double_round (2 * tenth + tenth) = Num (5404319552844596 / 2 ^ 54)"
  using double_round_eval [of "1 / 2 ^ 2" "- 2" "2 * tenth + tenth" "1 / 2 ^ 54" 5404319552844596]
  by (simp add: tenth_def powr_minus round_half_even_def)

lemma round_mean:
  "double_round (5404319552844596 / 2 ^ 54 / 3) = Num (7205759403792795 / 2 ^ 56)"
  using double_round_eval [of "1 / 2 ^ 4" "- 4" "5404319552844596 / 2 ^ 54 / 3" "1 / 2 ^ 56" 7205759403792795]
  by (simp add: powr_minus round_half_even_def)

lemma round_deviation: "double_round (- (1 / 2 ^ 56)) = Num (- (1 / 2 ^ 56))"
  using double_round_eval [of "1 / 2 ^ 56" "- 56" "- (1 / 2 ^ 56)" "1 / 2 ^ 108" "- 4503599627370496"]
  by (simp add: powr_minus round_half_even_def)

lemma round_square: "double_round (1 / 2 ^ 112) = Num (1 / 2 ^ 112)"
  using double_round_eval [of "1 / 2 ^ 112" "- 112" "1 / 2 ^ 112" "1 / 2 ^ 164" 4503599627370496]
  by (simp add: powr_minus round_half_even_def)

lemma round_two_squares: "double_round (2 / 2 ^ 112) = Num (2 / 2 ^ 112)"
  using double_round_eval [of "1 / 2 ^ 111" "- 111" "2 / 2 ^ 112" "1 / 2 ^ 163" 4503599627370496]
  by (simp add: powr_minus round_half_even_def)

lemma round_three_squares: "double_round (3 / 2 ^ 112) = Num (3 / 2 ^ 112)"
  using double_round_eval [of "1 / 2 ^ 111" "- 111" "3 / 2 ^ 112" "1 / 2 ^ 163" 6755399441055744]
  by (simp add: powr_minus round_half_even_def)

lemma round_std: "double_round (1 / 2 ^ 56) = Num (1 / 2 ^ 56)"
  using double_round_eval [of "1 / 2 ^ 56" "- 56" "1 / 2 ^ 56" "1 / 2 ^ 108" 4503599627370496]
  by (simp add: powr_minus round_half_even_def)

lemma round_minus_one: "double_round (- 1) = Num (- 1)"
  using double_round_eval [of 1 0 "- 1" "1 / 2 ^ 52" "- 4503599627370496"]
  by (simp add: powr_minus round_half_even_def)

lemma sqrt_square_power: "sqrt (1 / 2 ^ 112) = 1 / 2 ^ 56"
  by (rule real_sqrt_unique) (simp_all add: power2_eq_square)

lemma tenth_mean:
  "rounded double_round (js_div (js_sum_rounded double_round (map Num [tenth, tenth, tenth]))
                                (Num (real (length [tenth, tenth, tenth]))))
     = Num (7205759403792795 / 2 ^ 56)"
proof -
  have "js_sum_rounded double_round (map Num [tenth, tenth, tenth])
          = Num (5404319552844596 / 2 ^ 54)"
    using round_tenth round_two_tenths round_three_tenths
    by (simp add: js_sum_rounded_def rounded_def)
  then show ?thesis using round_mean by (simp add: rounded_def)
qed

lemma tenth_deviation:
  "rounded double_round (js_sub (Num tenth) (Num (7205759403792795 / 2 ^ 56)))
     = Num (- (1 / 2 ^ 56))"
proof -
  have "tenth - 7205759403792795 / 2 ^ 56 = - (1 / 2 ^ 56)" by (simp add: tenth_def)
  then show ?thesis using round_deviation by (simp add: js_sub_def rounded_def)
qed

lemma tenth_std:
  "rounded double_round (js_sqrt (rounded double_round
     (js_div (js_sum_sq_dev_rounded double_round (Num (7205759403792795 / 2 ^ 56))
                (map Num [tenth, tenth, tenth]))
             (Num (real (length [tenth, tenth, tenth]))))))
     = Num (1 / 2 ^ 56)"
proof -
  have q: "rounded double_round (js_pow2 (Num (- (1 / 2 ^ 56)))) = Num (1 / 2 ^ 112)"
    using round_square by (simp add: rounded_def)
  have "js_sum_sq_dev_rounded double_round (Num (7205759403792795 / 2 ^ 56))
          (map Num [tenth, tenth, tenth]) = Num (3 / 2 ^ 112)"
    unfolding js_sum_sq_dev_rounded_def list.map foldl.simps tenth_deviation q
    using round_square round_two_squares round_three_squares
    by (simp add: rounded_def)
  moreover have "rounded double_round
       (js_div (Num (3 / 2 ^ 112)) (Num (real (length [tenth, tenth, tenth]))))
         = Num (1 / 2 ^ 112)"
    using round_square by (simp add: rounded_def)
  moreover have "js_sqrt (Num (1 / 2 ^ 112)) = Num (1 / 2 ^ 56)"
    unfolding js_sqrt.simps sqrt_square_power by simp
  moreover have "rounded double_round (Num (1 / 2 ^ 56)) = Num (1 / 2 ^ 56)"
    unfolding rounded_def jsnum.case by (rule round_std)
  ultimately show ?thesis by (simp only:)
qed

lemma tenth_score:
  "js_abs (rounded double_round
     (js_div (rounded double_round (js_sub (Num tenth) (Num (7205759403792795 / 2 ^ 56))))
             (js_or (Num (1 / 2 ^ 56)) (Num 1)))) = Num 1"
  unfolding tenth_deviation using round_minus_one by (simp add: js_or_def rounded_def)

text \<open>
  C10. Constant data is meant never to be flagged, which is what the replacement of a
  zero standard deviation by 1 is for. In double arithmetic the detector does flag it:
  the sum of three samples \<open>0.1\<close> rounds to \<open>0.30000000000000004\<close> and the mean to
  \<open>0.10000000000000002\<close>, so the deviations and the standard deviation are \<open>2 ^ -56\<close>,
  not 0, the replacement does not apply, every sample scores 1 and all three are flagged
  at sensitivity 0.5.
\<close>

theorem constant_tenths_flagged:
  "map a_index (detectAnomaliesZScore_rounded double_round (frozen_clock 0)
                  [tenth, tenth, tenth] (1 / 2)) = [0, 1, 2] \<and>
   map a_score (detectAnomaliesZScore_rounded double_round (frozen_clock 0)
                  [tenth, tenth, tenth] (1 / 2)) = [Num 1, Num 1, Num 1]"
proof -
  have v: "zscore_visit double_round clock len (Num (7205759403792795 / 2 ^ 56)) (Num (1 / 2 ^ 56))
             (1 / 2) acc (i, tenth)
           = acc @ [\<lparr>a_index = i, a_value = tenth,
                     a_timestamp = clock (length acc) - (int len - int i) * 1000,
                     a_score = Num 1, a_method = ''zscore''\<rparr>]" for clock len acc i
    unfolding zscore_visit_def Let_def fst_conv snd_conv tenth_score
    by (simp add: js_gt_def)
  have "detectAnomaliesZScore_rounded double_round (frozen_clock 0) [tenth, tenth, tenth] (1 / 2)
          = foldl (zscore_visit double_round (frozen_clock 0) (length [tenth, tenth, tenth])
                     (Num (7205759403792795 / 2 ^ 56)) (Num (1 / 2 ^ 56)) (1 / 2)) []
              (enumerate 0 [tenth, tenth, tenth])"
    unfolding detectAnomaliesZScore_rounded_def Let_def tenth_mean tenth_std by simp
  moreover have "enumerate 0 [tenth, tenth, tenth] = [(0, tenth), (1, tenth), (2, tenth)]"
    by simp
  ultimately have "detectAnomaliesZScore_rounded double_round (frozen_clock 0)
                     [tenth, tenth, tenth] (1 / 2)
      = [\<lparr>a_index = 0, a_value = tenth, a_timestamp = - 3000,
           a_score = Num 1, a_method = ''zscore''\<rparr>,
         \<lparr>a_index = 1, a_value = tenth, a_timestamp = - 2000,
           a_score = Num 1, a_method = ''zscore''\<rparr>,
         \<lparr>a_index = 2, a_value = tenth, a_timestamp = - 1000,
           a_score = Num 1, a_method = ''zscore''\<rparr>]"
    by (simp only: foldl.simps v append_Nil) (simp add: frozen_clock_def)
  then show ?thesis by simp
qed

lemma constant_sum_sq_dev:
  assumes "rnd 0 = Num 0"
  shows "js_sum_sq_dev_rounded rnd (Num c) (map Num (replicate n c)) = Num 0"
proof -
  have "foldl (\<lambda>sum val. rounded rnd (js_add sum
                          (rounded rnd (js_pow2 (rounded rnd (js_sub val (Num c)))))))
           (Num 0) (map Num (replicate n c)) = Num 0"
    by (induction n) (simp_all add: js_sub_def rounded_def assms)
  then show ?thesis by (simp add: js_sum_sq_dev_rounded_def)
qed

lemma constant_visit:
  assumes "rnd 0 = Num 0" and "0 < s"
  shows "zscore_visit rnd clock len (Num c) (Num 0) s acc (i, c) = acc"
  using assms by (simp add: zscore_visit_def Let_def js_sub_def rounded_def js_or_def js_gt_def)

lemma constant_fold:
  assumes "rnd 0 = Num 0" and "0 < s"
  shows "foldl (zscore_visit rnd clock len (Num c) (Num 0) s) acc (enumerate k (replicate n c))
           = acc"
  using assms by (induction n arbitrary: k) (simp_all add: constant_visit)

lemma constant_rounded:
  assumes "rnd 0 = Num 0" and "computed_mean rnd (replicate n c) = Num c" and "0 < s"
  shows "detectAnomaliesZScore_rounded rnd clock (replicate n c) s = []"
proof (cases "3 \<le> n")
  case False
  then show ?thesis by (simp add: detectAnomaliesZScore_rounded_def)
next
  case True
  have m: "rounded rnd (js_div (js_sum_rounded rnd (map Num (replicate n c)))
                               (Num (real (length (replicate n c))))) = Num c"
    using assms(2) by (simp add: computed_mean_def)
  have sd: "rounded rnd (js_sqrt (rounded rnd
              (js_div (js_sum_sq_dev_rounded rnd (Num c) (map Num (replicate n c)))
                      (Num (real (length (replicate n c))))))) = Num 0"
    unfolding constant_sum_sq_dev [of rnd c n, OF assms(1)]
    using True assms(1) by (simp add: rounded_def)
  show ?thesis
    unfolding detectAnomaliesZScore_rounded_def Let_def m sd
    using True assms by (simp add: constant_fold)
qed

text \<open>
  When the replacement does apply: at a positive sensitivity the z-score detector flags
  no sample of a constant input in exact arithmetic, and in any arithmetic that rounds 0
  to 0 whenever the mean it computes equals the common value of the samples. The
  deviations, the variance and the standard deviation are then 0, the divisor is
  replaced by 1 and every score is 0.
\<close>

lemma constant_not_flagged:
  assumes "0 < s"
  shows "detectAnomaliesZScore clock (replicate n c) s = [] \<and>
         (rnd 0 = Num 0 \<and> computed_mean rnd (replicate n c) = Num c \<longrightarrow>
            detectAnomaliesZScore_rounded rnd clock (replicate n c) s = [])"
  using assms zscore_constant_exact constant_rounded by blast

lemma round_one: "double_round 1 = Num 1"
  using double_round_eval [of 1 0 1 "1 / 2 ^ 52" 4503599627370496]
  by (simp add: powr_minus round_half_even_def)

lemma round_two: "double_round 2 = Num 2"
  using double_round_eval [of 2 1 2 "1 / 2 ^ 51" 4503599627370496]
  by (simp add: powr_minus round_half_even_def)

lemma round_three: "double_round 3 = Num 3"
  using double_round_eval [of 2 1 3 "1 / 2 ^ 51" 6755399441055744]
  by (simp add: powr_minus round_half_even_def)

text \<open>
  Three samples 1 at sensitivity 0.5, in exact and in double arithmetic, where the sum 3
  and the mean 1 are computed without rounding error.
\<close>

lemma constant_not_flagged_example:
  "(0::real) < 1 / 2 \<and> double_round 0 = Num 0 \<and>
   computed_mean double_round (replicate 3 1) = Num 1 \<and>
   detectAnomaliesZScore (frozen_clock 0) (replicate 3 1) (1 / 2) = [] \<and>
   detectAnomaliesZScore_rounded double_round (frozen_clock 0) (replicate 3 1) (1 / 2) = []"
proof -
  have z: "double_round 0 = Num 0" by (simp add: double_round_def)
  have r: "replicate 3 (1::real) = [1, 1, 1]" by (simp add: numeral_3_eq_3)
  have m: "computed_mean double_round (replicate 3 1) = Num 1"
    unfolding r
    by (simp add: computed_mean_def js_sum_rounded_def rounded_def round_one round_two round_three)
  show ?thesis
    using constant_not_flagged [of "1 / 2" "frozen_clock 0" 3 1 double_round] z m by simp
qed

section \<open>The order of the steps\<close>

lemma stamped_snoc:
  assumes "stamped clock ps" and "p_timestamp p = clock (length ps) + (int (length ps) + 1) * 60000"
  shows "stamped clock (ps @ [p])"
  using assms by (auto simp: stamped_def nth_append less_Suc_eq)

lemma rollout_stamped:
  assumes "rollout model clock mean std lv preds window [int (length preds) + 1 .. steps] = Inr ps"
    and "stamped clock preds"
  shows "stamped clock ps"
  using assms
proof (induction "nat (steps - int (length preds))" arbitrary: preds window)
  case 0
  then have "[int (length preds) + 1 .. steps] = []" by simp
  with 0 show ?case by simp
next
  case (Suc n)
  then have u: "[int (length preds) + 1 .. steps]
                  = (int (length preds) + 1) # [int (length preds) + 1 + 1 .. steps]"
    by (simp add: upto_rec1)
  from Suc.prems(1) obtain np where np: "model window = Inr np"
    unfolding u by (cases "model window") auto
  define p where "p = \<lparr>p_timestamp = clock (length preds) + (int (length preds) + 1) * 60000,
      p_value = js_add (js_mul np std) mean,
      p_confidence = ml_confidence (js_add (js_mul np std) mean) lv (int (length preds) + 1)\<rparr>"
  have r: "rollout model clock mean std lv (preds @ [p]) (drop 1 window @ [np])
             [int (length (preds @ [p])) + 1 .. steps] = Inr ps"
    using Suc.prems(1) unfolding u by (simp add: np Let_def p_def add.commute)
  have s: "stamped clock (preds @ [p])"
    using Suc.prems(2) by (rule stamped_snoc) (simp add: p_def)
  have n: "n = nat (steps - int (length (preds @ [p])))" using Suc.hyps(2) by simp
  show ?case using Suc.hyps(1) [OF n r s] .
qed

lemma linear_stamped: "stamped clock (simpleLinearPrediction clock data steps)"
  by (simp add: stamped_def simpleLinearPrediction_length simpleLinearPrediction_nth
      linear_point_timestamp)

lemma fit_and_rollout_stamped:
  assumes "fit_and_rollout tf clock xs ys mean std lv seed steps = Inr (Some ps)"
  shows "stamped clock ps"
proof -
  obtain model where "rollout model clock mean std lv [] seed [1..steps] = Inr ps"
    using assms
    by (auto simp: fit_and_rollout_def split: sum.splits option.splits)
  then have "rollout model clock mean std lv [] seed [int (length ([]::TrendPrediction list)) + 1 .. steps]
               = Inr ps"
    by simp
  then show ?thesis by (rule rollout_stamped) (simp add: stamped_def)
qed

lemma predict_try_stamped:
  assumes "predict_try tf clock data steps = Inr (Some ps)"
  shows "stamped clock ps"
proof -
  obtain xs ys mean std lv seed
    where "fit_and_rollout tf clock xs ys mean std lv seed steps = Inr (Some ps)"
    using predict_try_cases [OF assms] by blast
  then show ?thesis by (rule fit_and_rollout_stamped)
qed

lemma predictTrend_stamped:
  "\<exists>ps j. predictTrend tf clock data steps = Inr ps \<and> length ps = nat steps \<and>
          stamped (later j clock) ps"
proof (cases "length data < 5")
  case True
  then have "predictTrend tf clock data steps = Inr (simpleLinearPrediction (later 0 clock) data steps)"
    by (simp add: predictTrend_exact later_zero)
  then show ?thesis using simpleLinearPrediction_length linear_stamped by blast
next
  case False
  show ?thesis
  proof (cases "predict_try tf clock data steps")
    case (Inl ek)
    obtain e j where "ek = (e, j)" by (cases ek)
    with Inl False have "predictTrend tf clock data steps
                           = Inr (simpleLinearPrediction (later j clock) data steps)"
      by (simp add: predictTrend_exact)
    then show ?thesis using simpleLinearPrediction_length linear_stamped by blast
  next
    case (Inr r)
    show ?thesis
    proof (cases r)
      case None
      with Inr False have "predictTrend tf clock data steps
                           = Inr (simpleLinearPrediction (later 0 clock) data steps)"
        by (simp add: predictTrend_exact later_zero)
      then show ?thesis using simpleLinearPrediction_length linear_stamped by blast
    next
      case (Some ps)
      with Inr have "stamped (later 0 clock) ps" "length ps = nat steps"
        using predict_try_stamped predict_try_length by (simp_all add: later_zero)
      moreover from Some Inr False have "predictTrend tf clock data steps = Inr ps"
        by (simp add: predictTrend_exact)
      ultimately show ?thesis by blast
    qed
  qed
qed

text \<open>
  C3, as the code has it. For every input and every step count the forecaster returns
  a list of \<open>nat steps\<close> points, step 1 first, and never an error; with fewer than five
  samples the list is the linear prediction. The points of the linear prediction come step 1 first
  (the \<open>k\<close>-th is stamped \<open>(k + 1) * 60000\<close> ms after its clock reading), the
  confidence at step \<open>i\<close> is \<open>max(0.3, 1 - 0.6 * (i / steps))\<close>, which is
  \<open>1 - 0.6 * (i / steps)\<close>, and it decreases strictly from step to step. Nothing is
  stated about the order of the confidences of the trained network.
\<close>

theorem forecast_count_and_confidence:
  "(\<exists>ps j. predictTrend tf clock data steps = Inr ps \<and> length ps = nat steps \<and>
      (\<forall>k < nat steps. p_timestamp (ps ! k) = clock (j + k) + (int k + 1) * 60000)) \<and>
   (length data < 5 \<longrightarrow>
      predictTrend tf clock data steps = Inr (simpleLinearPrediction clock data steps)) \<and>
   length (simpleLinearPrediction clock data steps) = nat steps \<and>
   (\<forall>k < nat steps.
      p_timestamp (simpleLinearPrediction clock data steps ! k) = clock k + (int k + 1) * 60000 \<and>
      p_confidence (simpleLinearPrediction clock data steps ! k)
        = Num (max 0.3 (1 - 0.6 * (real (k + 1) / real_of_int steps))) \<and>
      max 0.3 (1 - 0.6 * (real (k + 1) / real_of_int steps))
        = 1 - 0.6 * (real (k + 1) / real_of_int steps)) \<and>
   (\<forall>j k. j < k \<and> k < nat steps \<longrightarrow>
      js_lt (p_confidence (simpleLinearPrediction clock data steps ! k))
            (p_confidence (simpleLinearPrediction clock data steps ! j)))"
proof (intro conjI allI impI)
  show "\<exists>ps j. predictTrend tf clock data steps = Inr ps \<and> length ps = nat steps \<and>
      (\<forall>k < nat steps. p_timestamp (ps ! k) = clock (j + k) + (int k + 1) * 60000)"
    using predictTrend_stamped [of tf clock data steps]
    by (auto simp: stamped_def later_def)
next
  assume "length data < 5"
  then show "predictTrend tf clock data steps = Inr (simpleLinearPrediction clock data steps)"
    by (simp add: predictTrend_exact)
next
  show "length (simpleLinearPrediction clock data steps) = nat steps"
    by (rule simpleLinearPrediction_length)
next
  fix k assume k: "k < nat steps"
  then show "p_timestamp (simpleLinearPrediction clock data steps ! k)
               = clock k + (int k + 1) * 60000"
    by (simp add: simpleLinearPrediction_nth linear_point_timestamp)
  from k have s: "steps \<noteq> 0" by auto
  have c: "linear_confidence steps (int k + 1)
             = max 0.3 (1 - 0.6 * (real (k + 1) / real_of_int steps))"
    by (simp add: linear_confidence_def add.commute)
  show "p_confidence (simpleLinearPrediction clock data steps ! k)
          = Num (max 0.3 (1 - 0.6 * (real (k + 1) / real_of_int steps)))"
  proof -
    have "p_confidence (simpleLinearPrediction clock data steps ! k)
            = Num (linear_confidence steps (int k + 1))"
      by (simp add: simpleLinearPrediction_nth [OF k] linear_point_confidence [OF s])
    then show ?thesis unfolding c .
  qed
  show "max 0.3 (1 - 0.6 * (real (k + 1) / real_of_int steps))
          = 1 - 0.6 * (real (k + 1) / real_of_int steps)"
  proof -
    have "1 \<le> int k + 1" "int k + 1 \<le> steps" using k by auto
    then have "linear_confidence steps (int k + 1)
                 = 1 - 0.6 * (real_of_int (int k + 1) / real_of_int steps)"
      by (rule linear_confidence_eq)
    then show ?thesis unfolding c by (simp add: add.commute)
  qed
next
  fix j k assume jk: "j < k \<and> k < nat steps"
  then have s: "steps \<noteq> 0" and j: "j < nat steps" and k: "k < nat steps" by auto
  have "linear_confidence steps (int k + 1) < linear_confidence steps (int j + 1)"
    using jk by (intro linear_confidence_decreasing) auto
  then show "js_lt (p_confidence (simpleLinearPrediction clock data steps ! k))
                   (p_confidence (simpleLinearPrediction clock data steps ! j))"
    using s by (simp add: simpleLinearPrediction_nth [OF j] simpleLinearPrediction_nth [OF k]
        linear_point_confidence)
qed

text \<open>
  C3 at three samples and three steps, with a library whose every call raises: the
  forecast is the linear prediction, of length 3, with confidences 0.8 and 0.6 at the
  first two steps.
\<close>

theorem forecast_count_and_confidence_witness:
  "length [1, 2, 3::real] < 5 \<and>
   predictTrend broken_tfjs (frozen_clock 0) [1, 2, 3] 3
     = Inr (simpleLinearPrediction (frozen_clock 0) [1, 2, 3] 3) \<and>
   length (simpleLinearPrediction (frozen_clock 0) [1, 2, 3] 3) = 3 \<and>
   (0::nat) < nat 3 \<and> (1::nat) < nat 3 \<and>
   p_timestamp (simpleLinearPrediction (frozen_clock 0) [1, 2, 3] 3 ! 1) = 120000 \<and>
   p_confidence (simpleLinearPrediction (frozen_clock 0) [1, 2, 3] 3 ! 0) = Num (8 / 10) \<and>
   p_confidence (simpleLinearPrediction (frozen_clock 0) [1, 2, 3] 3 ! 1) = Num (6 / 10) \<and>
   js_lt (p_confidence (simpleLinearPrediction (frozen_clock 0) [1, 2, 3] 3 ! 1))
         (p_confidence (simpleLinearPrediction (frozen_clock 0) [1, 2, 3] 3 ! 0))"
proof -
  note t = forecast_count_and_confidence [of broken_tfjs "frozen_clock 0" "[1, 2, 3]" 3]
  have a: "predictTrend broken_tfjs (frozen_clock 0) [1, 2, 3] 3
     = Inr (simpleLinearPrediction (frozen_clock 0) [1, 2, 3] 3)"
    using t by simp
  have b: "length (simpleLinearPrediction (frozen_clock 0) [1, 2, 3] 3) = 3"
    using t by simp
  have k: "\<forall>k < nat 3.
      p_timestamp (simpleLinearPrediction (frozen_clock 0) [1, 2, 3] 3 ! k)
        = frozen_clock 0 k + (int k + 1) * 60000 \<and>
      p_confidence (simpleLinearPrediction (frozen_clock 0) [1, 2, 3] 3 ! k)
        = Num (max 0.3 (1 - 0.6 * (real (k + 1) / real_of_int 3))) \<and>
      max 0.3 (1 - 0.6 * (real (k + 1) / real_of_int 3))
        = 1 - 0.6 * (real (k + 1) / real_of_int 3)"
    using t by blast
  have k0: "p_confidence (simpleLinearPrediction (frozen_clock 0) [1, 2, 3] 3 ! 0) = Num (8 / 10)"
    using k [rule_format, of 0] by simp
  have k1: "p_confidence (simpleLinearPrediction (frozen_clock 0) [1, 2, 3] 3 ! 1) = Num (6 / 10)"
    "p_timestamp (simpleLinearPrediction (frozen_clock 0) [1, 2, 3] 3 ! 1) = 120000"
    using k [rule_format, of 1] by (simp_all add: frozen_clock_def)
  have d: "js_lt (p_confidence (simpleLinearPrediction (frozen_clock 0) [1, 2, 3] 3 ! 1))
         (p_confidence (simpleLinearPrediction (frozen_clock 0) [1, 2, 3] 3 ! 0))"
    using t by (simp add: k0 k1)
  show ?thesis using a b k0 k1 d by simp
qed

text \<open>
  On the empty input there is no last sample and no mean: every value of the linear
  prediction is \<open>NaN\<close>.
\<close>

lemma linear_forecast_empty:
  assumes "k < nat steps"
  shows "p_value (simpleLinearPrediction clock [] steps ! k) = NaN"
  unfolding simpleLinearPrediction_nth [OF assms]
  by (simp add: linear_point_exact Let_def js_last_def)

section \<open>Doubles that need no rounding\<close>

text \<open>
  An integer below \<open>2 ^ 53\<close> in magnitude is a double, so the arithmetic of small
  integers is exact; \<open>2 ^ 1023\<close> is a double, and twice that number is rounded to
  infinity.
\<close>

lemma round_half_even_int: "round_half_even (of_int z) = z"
  by (simp add: round_half_even_def)

lemma double_round_int:
  assumes "m \<noteq> 0" and "\<bar>m\<bar> < 2 ^ 53"
  shows "double_round (of_int m) = Num (of_int m)"
proof -
  define x :: real where "x = of_int m"
  define k where "k = \<lfloor>log 2 \<bar>x\<bar>\<rfloor>"
  have x1: "1 \<le> \<bar>x\<bar>" using assms(1) by (simp add: x_def)
  then have x0: "0 < \<bar>x\<bar>" by linarith
  have kb: "2 powr of_int k \<le> \<bar>x\<bar>" "\<bar>x\<bar> < 2 powr (of_int k + 1)"
    using floor_log_eq_powr_iff [of "\<bar>x\<bar>" 2 k] x0 by (simp_all add: k_def)
  have "0 \<le> log 2 \<bar>x\<bar>" using x1 by simp
  then have k0: "0 \<le> k" by (simp add: k_def)
  have "\<bar>x\<bar> < 2 ^ 53"
  proof -
    have "real_of_int \<bar>m\<bar> < real_of_int (2 ^ 53)" using assms(2) by (rule of_int_less_iff [THEN iffD2])
    then show ?thesis by (simp add: x_def)
  qed
  moreover have "(2::real) powr 53 = 2 ^ 53" by simp
  ultimately have p: "(2::real) powr real_of_int k < 2 powr 53" using kb(1) by linarith
  have "real_of_int k < 53"
  proof (rule powr_less_cancel)
    show "(2::real) powr real_of_int k < 2 powr 53" by (rule p)
    show "1 < (2::real)" by simp
  qed
  then have k52: "k \<le> 52" by linarith
  define j where "j = nat (52 - k)"
  have kj: "real_of_int (k - 52) = - real j" using k52 by (simp add: j_def)
  have u: "(2::real) powr real_of_int (k - 52) = 1 / 2 ^ j"
    unfolding kj by (simp add: powr_minus powr_realpow inverse_eq_divide)
  have q: "x / (1 / 2 ^ j) = of_int (m * 2 ^ j)" by (simp add: x_def)
  have r: "round_half_even (x / (1 / 2 ^ j)) = m * 2 ^ j"
    unfolding q by (rule round_half_even_int)
  have v: "real_of_int (m * 2 ^ j) * (1 / 2 ^ j) = x" by (simp add: x_def)
  have h1: "(2::real) powr of_int k = 2 powr of_int k" ..
  have h2: "- 1022 \<le> k" using k0 by simp
  have h4: "\<bar>x\<bar> < 2 * 2 powr of_int k" using kb(2) by (simp add: powr_add)
  have h5: "1 / 2 ^ j = (2::real) powr of_int (k - 52)" by (rule u [symmetric])
  have "\<bar>x\<bar> < 2 ^ 1024"
    using \<open>\<bar>x\<bar> < 2 ^ 53\<close> power_strict_increasing [of 53 1024 "2::real"] by simp
  then have h7: "\<bar>real_of_int (m * 2 ^ j) * (1 / 2 ^ j)\<bar> < 2 ^ 1024" unfolding v .
  have "double_round x = Num (of_int (m * 2 ^ j) * (1 / 2 ^ j))"
    by (rule double_round_eval [of "2 powr of_int k" k x "1 / 2 ^ j" "m * 2 ^ j", OF h1 h2 kb(1) h4 h5 r h7])
  then show ?thesis unfolding v by (simp add: x_def)
qed

lemma double_round_zero: "double_round 0 = Num 0"
  by (simp add: double_round_def)

lemma double_round_one: "double_round 1 = Num 1"
  using double_round_int [of 1] by simp

lemma double_round_numeral:
  "(numeral w :: int) < 2 ^ 53 \<Longrightarrow> double_round (numeral w) = Num (numeral w)"
  using double_round_int [of "numeral w"] by simp

lemma double_round_neg_numeral:
  "(numeral w :: int) < 2 ^ 53 \<Longrightarrow> double_round (- numeral w) = Num (- numeral w)"
  using double_round_int [of "- numeral w"] by simp

lemma double_round_overflow:
  assumes "lo = 2 powr of_int k" and "- 1022 \<le> k"
    and "lo \<le> \<bar>x\<bar>" and "\<bar>x\<bar> < 2 * lo"
    and "u = 2 powr of_int (k - 52)"
    and "round_half_even (x / u) = m"
    and "2 ^ 1024 \<le> \<bar>of_int m * u\<bar>"
  shows "double_round x = signed_inf (0 < x)"
proof -
  have lo: "0 < lo" using assms(1) by simp
  then have x: "0 < \<bar>x\<bar>" using assms(3) by linarith
  have "2 powr (of_int k + 1) = 2 * lo" using assms(1) by (simp add: powr_add)
  then have "\<lfloor>log 2 \<bar>x\<bar>\<rfloor> = k"
    using x assms(1,3,4) by (simp add: floor_log_eq_powr_iff)
  moreover have "max (k - 52) (- 1074) = k - 52" using assms(2) by simp
  ultimately have "double_ulp x = u"
    using assms(5) by (simp only: double_ulp_def)
  then show ?thesis
    using x assms(6,7) by (auto simp: double_round_def Let_def)
qed

lemma round_huge: "double_round huge = Num huge"
proof -
  have q: "(2::real) ^ 1023 / 2 ^ 971 = of_int (2 ^ 52)" by simp
  have r: "round_half_even ((2::real) ^ 1023 / 2 ^ 971) = 2 ^ 52"
    unfolding q by (rule round_half_even_int)
  have "double_round (2 ^ 1023) = Num (of_int (2 ^ 52) * 2 ^ 971)"
    using double_round_eval [of "2 ^ 1023" 1023 "2 ^ 1023" "2 ^ 971" "2 ^ 52"] r
    by simp
  then show ?thesis by (simp add: huge_def)
qed

lemma round_two_huge: "double_round (huge + huge) = PInf"
proof -
  have a: "huge + huge = 2 ^ 1024" by (simp add: huge_def)
  have q: "(2::real) ^ 1024 / 2 ^ 972 = of_int (2 ^ 52)" by simp
  have r: "round_half_even ((2::real) ^ 1024 / 2 ^ 972) = 2 ^ 52"
    unfolding q by (rule round_half_even_int)
  have "double_round (2 ^ 1024) = signed_inf (0 < (2::real) ^ 1024)"
    using double_round_overflow [of "2 ^ 1024" 1024 "2 ^ 1024" "2 ^ 972" "2 ^ 52"] r
    by simp
  then show ?thesis unfolding a by (simp add: signed_inf_def)
qed

lemma round_threshold: "double_round (1 / 10000) = Num (7378697629483821 / 2 ^ 66)"
  using double_round_eval [of "1 / 2 ^ 14" "- 14" "1 / 10000" "1 / 2 ^ 66" 7378697629483821]
  by (simp add: powr_minus round_half_even_def)

lemma sqrt_two_rounds: "round_half_even (sqrt 2 * 2 ^ 52) = 6369051672525773"
proof -
  have e: "sqrt 2 * 2 ^ 52 = sqrt (2 ^ 105)"
  proof -
    have "sqrt (2 ^ 105) = sqrt (2 * (2 ^ 52)\<^sup>2)" by simp
    also have "\<dots> = sqrt 2 * 2 ^ 52" by (simp only: real_sqrt_mult real_sqrt_abs) simp
    finally show ?thesis by simp
  qed
  have lo: "12738103345051545 / 2 < sqrt (2 ^ 105)"
    by (rule real_less_rsqrt) (simp add: power2_eq_square)
  have hi: "sqrt (2 ^ 105) < 6369051672525773"
    by (rule real_less_lsqrt) (simp_all add: power2_eq_square)
  have f: "\<lfloor>sqrt (2 ^ 105)\<rfloor> = 6369051672525772"
    using lo hi by (intro floor_unique) simp_all
  show ?thesis unfolding e round_half_even_def Let_def f using lo by simp
qed

lemma round_sqrt_two: "double_round (sqrt 2) = Num (6369051672525773 / 2 ^ 52)"
proof -
  have a: "1 \<le> sqrt 2" by simp
  have b: "sqrt 2 < 2" by (rule real_less_lsqrt) simp_all
  have q: "sqrt 2 / (1 / 2 ^ 52) = sqrt 2 * 2 ^ 52" by simp
  show ?thesis
    using double_round_eval [of 1 0 "sqrt 2" "1 / 2 ^ 52" 6369051672525773] a b
      sqrt_two_rounds
    by (simp add: powr_minus q)
qed

lemma round_twice_huge: "double_round (2 * huge) = PInf"
  using round_two_huge by simp

section \<open>The statistics calculator under rounding\<close>

text \<open>
  The median, the least and the greatest sample are read from the sorted copy and
  involve no arithmetic. The mean and the variance are the exact ones where no
  operation of their computation rounds.
\<close>

lemma rounded_num: "rounded rnd (Num v) = rnd v"
  by (simp add: rounded_def)

lemma partial_sums_snoc: "partial_sums (xs @ [x]) = partial_sums xs @ [sum_list xs + x]"
  by (simp add: partial_sums_def)

lemma js_sum_rounded_nums:
  assumes "\<forall>v\<in>set (partial_sums xs). rnd v = Num v"
  shows "js_sum_rounded rnd (map Num xs) = Num (sum_list xs)"
  using assms
proof (induction xs rule: rev_induct)
  case Nil
  show ?case by (simp add: js_sum_rounded_def)
next
  case (snoc x xs)
  then have "js_sum_rounded rnd (map Num xs) = Num (sum_list xs)"
    and "rnd (sum_list xs + x) = Num (sum_list xs + x)"
    by (simp_all add: partial_sums_snoc)
  then show ?case by (simp add: js_sum_rounded_def rounded_num)
qed

lemma js_sum_sq_dev_rounded_nums:
  assumes "\<forall>x\<in>set xs. rnd (x - m) = Num (x - m)"
    and "\<forall>x\<in>set xs. rnd ((x - m) * (x - m)) = Num ((x - m) * (x - m))"
    and "\<forall>v\<in>set (partial_sums (map (\<lambda>x. (x - m) * (x - m)) xs)). rnd v = Num v"
  shows "js_sum_sq_dev_rounded rnd (Num m) (map Num xs)
           = Num (sum_list (map (\<lambda>x. (x - m) * (x - m)) xs))"
  using assms
proof (induction xs rule: rev_induct)
  case Nil
  show ?case by (simp add: js_sum_sq_dev_rounded_def)
next
  case (snoc x xs)
  then have "js_sum_sq_dev_rounded rnd (Num m) (map Num xs)
               = Num (sum_list (map (\<lambda>x. (x - m) * (x - m)) xs))"
    and "rnd (x - m) = Num (x - m)"
    and "rnd ((x - m) * (x - m)) = Num ((x - m) * (x - m))"
    and "rnd (sum_list (map (\<lambda>x. (x - m) * (x - m)) xs) + (x - m) * (x - m))
           = Num (sum_list (map (\<lambda>x. (x - m) * (x - m)) xs) + (x - m) * (x - m))"
    by (simp_all add: partial_sums_snoc)
  then show ?case by (simp add: js_sum_sq_dev_rounded_def rounded_num js_sub_def)
qed

lemma stats_exact:
  assumes "data \<noteq> []" and "\<forall>v\<in>set (stats_values data). rnd v = Num v"
  shows "computed_mean rnd data = Num (pop_mean data)"
    and "computed_variance rnd data = Num (pop_variance data)"
proof -
  have s: "js_sum_rounded rnd (map Num data) = Num (sum_list data)"
    using assms(2) by (intro js_sum_rounded_nums) (simp add: stats_values_def Let_def)
  have "rnd (pop_mean data) = Num (pop_mean data)"
    using assms(2) by (simp add: stats_values_def Let_def pop_mean_def)
  then show m: "computed_mean rnd data = Num (pop_mean data)"
    using assms(1) by (simp add: computed_mean_def s rounded_num pop_mean_def)
  have q: "js_sum_sq_dev_rounded rnd (Num (pop_mean data)) (map Num data)
             = Num (sum_list (map (\<lambda>x. (x - pop_mean data) * (x - pop_mean data)) data))"
    using assms(2)
    by (intro js_sum_sq_dev_rounded_nums)
       (simp_all add: stats_values_def Let_def pop_mean_def comp_def)
  have v: "pop_variance data
             = sum_list (map (\<lambda>x. (x - pop_mean data) * (x - pop_mean data)) data)
                 / real (length data)"
    by (simp add: pop_variance_def power2_eq_square)
  have "rnd (pop_variance data) = Num (pop_variance data)"
    unfolding v using assms(2) by (simp add: stats_values_def Let_def pop_mean_def comp_def)
  then show "computed_variance rnd data = Num (pop_variance data)"
    using assms(1) unfolding computed_variance_def m q by (simp add: rounded_num v)
qed

lemma calculateStats_fields:
  assumes "data \<noteq> []"
  shows "calculateStats rnd data =
        Some \<lparr>s_mean = computed_mean rnd data,
              s_median = Num (sort data ! (length data div 2)),
              s_min = Num (Min (set data)),
              s_max = Num (Max (set data)),
              s_stdDev = rounded rnd (js_sqrt (computed_variance rnd data)),
              s_variance = computed_variance rnd data,
              s_count = length data\<rparr>"
proof -
  have s: "sort data \<noteq> []" using assms by (metis length_sort length_0_conv)
  have m: "sort data ! 0 = Min (set data)"
    using sorted_first_Min [of "sort data"] s by simp
  have x: "sort data ! (length data - Suc 0) = Max (set data)"
    using sorted_last_Max [of "sort data"] s by simp
  have d: "length data div 2 < length data" using assms by simp
  show ?thesis
    using assms s d
    by (simp add: calculateStats_def Let_def js_nth_def m x computed_mean_def
        computed_variance_def)
qed

lemma stats_values_example:
  "\<forall>v\<in>set (stats_values [1, 2, 3, 4, 5]). double_round v = Num v"
  by (simp add: stats_values_def partial_sums_def Let_def upt_rec
      double_round_numeral double_round_neg_numeral double_round_one double_round_zero
      round_minus_one)

text \<open>
  C2. On an empty sequence \<^verbatim>\<open>calculateStats\<close> returns the absent result, whatever
  the rounding. On a non-empty one it returns the length as count, the element at index
  \<open>n div 2\<close> of the sorted copy as median, the least and the greatest sample, the mean
  and the variance as computed (the samples summed and divided by the count; the squared
  deviations from the computed mean summed and divided by the count, each operation
  rounded), and the rounded square root of the computed variance. Where the rounding
  leaves the intermediate values \<open>stats_values\<close> unchanged, the computed mean and variance
  are the arithmetic mean and the population variance, and the standard deviation is the
  rounded square root of the latter. In double arithmetic on \<open>[1, 2, 3, 4, 5]\<close> the
  result is 3, 3, 1, 5, 2 and the double nearest to \<open>sqrt 2\<close>.
\<close>

theorem calculateStats_spec:
  "calculateStats rnd [] = None \<and>
   (data \<noteq> [] \<longrightarrow>
      calculateStats rnd data =
        Some \<lparr>s_mean = computed_mean rnd data,
              s_median = Num (sort data ! (length data div 2)),
              s_min = Num (Min (set data)),
              s_max = Num (Max (set data)),
              s_stdDev = rounded rnd (js_sqrt (computed_variance rnd data)),
              s_variance = computed_variance rnd data,
              s_count = length data\<rparr> \<and>
      (map rnd (stats_values data) = map Num (stats_values data) \<longrightarrow>
         computed_mean rnd data = Num (pop_mean data) \<and>
         computed_variance rnd data = Num (pop_variance data) \<and>
         rounded rnd (js_sqrt (computed_variance rnd data)) = rnd (sqrt (pop_variance data)))) \<and>
   calculateStats double_round [1, 2, 3, 4, 5] =
     Some \<lparr>s_mean = Num 3, s_median = Num 3, s_min = Num 1, s_max = Num 5,
           s_stdDev = double_round (sqrt 2), s_variance = Num 2, s_count = 5\<rparr> \<and>
   double_round (sqrt 2) = Num (6369051672525773 / 2 ^ 52)"
proof (intro conjI impI)
  show "calculateStats rnd [] = None" by (simp add: calculateStats_def)
next
  assume "data \<noteq> []"
  then show "calculateStats rnd data =
        Some \<lparr>s_mean = computed_mean rnd data,
              s_median = Num (sort data ! (length data div 2)),
              s_min = Num (Min (set data)),
              s_max = Num (Max (set data)),
              s_stdDev = rounded rnd (js_sqrt (computed_variance rnd data)),
              s_variance = computed_variance rnd data,
              s_count = length data\<rparr>"
    by (rule calculateStats_fields)
next
  assume ne: "data \<noteq> []" and "map rnd (stats_values data) = map Num (stats_values data)"
  then have "\<forall>v\<in>set (stats_values data). rnd v = Num v" by (simp only: map_eq_conv)
  with ne show "computed_mean rnd data = Num (pop_mean data)" by (rule stats_exact(1))
next
  assume ne: "data \<noteq> []" and "map rnd (stats_values data) = map Num (stats_values data)"
  then have "\<forall>v\<in>set (stats_values data). rnd v = Num v" by (simp only: map_eq_conv)
  with ne show "computed_variance rnd data = Num (pop_variance data)" by (rule stats_exact(2))
next
  assume ne: "data \<noteq> []" and "map rnd (stats_values data) = map Num (stats_values data)"
  then have "\<forall>v\<in>set (stats_values data). rnd v = Num v" by (simp only: map_eq_conv)
  with ne have "computed_variance rnd data = Num (pop_variance data)" by (rule stats_exact(2))
  then show "rounded rnd (js_sqrt (computed_variance rnd data)) = rnd (sqrt (pop_variance data))"
    using pop_variance_nonneg [of data] by (simp add: rounded_num)
next
  have n: "[1, 2, 3, 4, 5::real] \<noteq> []" by simp
  have a: "pop_mean [1, 2, 3, 4, 5] = 3" by (simp add: pop_mean_def)
  have b: "pop_variance [1, 2, 3, 4, 5] = 2" unfolding pop_variance_def a by simp
  have m: "computed_mean double_round [1, 2, 3, 4, 5] = Num 3"
    using stats_exact(1) [OF n stats_values_example] by (simp only: a)
  have v: "computed_variance double_round [1, 2, 3, 4, 5] = Num 2"
    using stats_exact(2) [OF n stats_values_example] by (simp only: b)
  show "calculateStats double_round [1, 2, 3, 4, 5] =
     Some \<lparr>s_mean = Num 3, s_median = Num 3, s_min = Num 1, s_max = Num 5,
           s_stdDev = double_round (sqrt 2), s_variance = Num 2, s_count = 5\<rparr>"
    unfolding calculateStats_fields [OF n] m v by (simp add: rounded_num)
next
  show "double_round (sqrt 2) = Num (6369051672525773 / 2 ^ 52)" by (rule round_sqrt_two)
qed

lemma stats_values_spike:
  "map double_round (stats_values [0, 0, 0, 0, 5]) = map Num (stats_values [0, 0, 0, 0, 5])"
  by (simp add: stats_values_def partial_sums_def Let_def upt_rec
      double_round_numeral double_round_neg_numeral double_round_one double_round_zero
      round_minus_one)

text \<open>
  C2 in double arithmetic at \<open>[0, 0, 0, 0, 5]\<close>, where every intermediate value is a
  small integer: mean 1, variance 4, standard deviation 2.
\<close>

theorem calculateStats_spec_witness:
  "[0, 0, 0, 0, 5::real] \<noteq> [] \<and>
   map double_round (stats_values [0, 0, 0, 0, 5]) = map Num (stats_values [0, 0, 0, 0, 5]) \<and>
   calculateStats double_round [0, 0, 0, 0, 5] =
     Some \<lparr>s_mean = Num 1, s_median = Num 0, s_min = Num 0, s_max = Num 5,
           s_stdDev = Num 2, s_variance = Num 4, s_count = 5\<rparr>"
proof -
  have a: "pop_mean [0, 0, 0, 0, 5] = 1" by (simp add: pop_mean_def)
  have b: "pop_variance [0, 0, 0, 0, 5] = 4" unfolding pop_variance_def a by simp
  have d: "double_round 2 = Num 2" by (simp add: double_round_numeral)
  show ?thesis
    using calculateStats_spec [of double_round "[0, 0, 0, 0, 5]"] stats_values_spike
    by (simp add: a b d rounded_num)
qed

lemma huge_mean: "computed_mean double_round [huge, huge] = PInf"
  by (simp add: computed_mean_def js_sum_rounded_def rounded_def round_huge round_twice_huge
      signed_inf_def)

lemma huge_variance: "computed_variance double_round [huge, huge] = PInf"
  unfolding computed_variance_def huge_mean
  by (simp add: js_sum_sq_dev_rounded_def rounded_def js_sub_def signed_inf_def)

text \<open>
  C2, as the specification states it, fails in double arithmetic on large samples: the
  sum of \<open>[huge, huge]\<close> overflows, and the mean, the variance and the standard
  deviation returned are infinite, where the arithmetic mean is \<open>huge\<close> and the
  population variance is 0.
\<close>

theorem calculateStats_overflow:
  "calculateStats double_round [huge, huge] =
     Some \<lparr>s_mean = PInf, s_median = Num huge, s_min = Num huge, s_max = Num huge,
           s_stdDev = PInf, s_variance = PInf, s_count = 2\<rparr> \<and>
   pop_mean [huge, huge] = huge \<and> pop_variance [huge, huge] = 0"
proof -
  have n: "[huge, huge] \<noteq> []" by simp
  have a: "pop_mean [huge, huge] = huge" by (simp add: pop_mean_def)
  have b: "pop_variance [huge, huge] = 0" unfolding pop_variance_def a by simp
  show ?thesis
    unfolding calculateStats_fields [OF n] huge_mean huge_variance
    by (simp add: a b rounded_def)
qed

section \<open>The linear forecast under rounding\<close>

lemma linear_fold_rounded:
  "foldl (linear_visit_rounded rnd clock slope mean lastValue steps) acc is
     = acc @ map (\<lambda>(k, i). linear_point_rounded rnd clock slope mean lastValue steps k i)
               (enumerate (length acc) is)"
  using visit_fold [of "linear_visit_rounded rnd clock slope mean lastValue steps" "\<lambda>i. True"
      "linear_point_rounded rnd clock slope mean lastValue steps" acc "is"]
  by (simp add: linear_visit_rounded_def)

lemma simpleLinearPrediction_rounded_nth:
  assumes "k < nat steps"
  shows "simpleLinearPrediction_rounded rnd clock data steps ! k
           = linear_point_rounded rnd clock (calculateSlope_rounded rnd (recent_window data))
               (computed_mean rnd (recent_window data))
               (js_last (map Num data)) steps k (int k + 1)"
  using assms
  by (simp add: simpleLinearPrediction_rounded_def Let_def linear_fold_rounded nth_enumerate_eq
      nth_steps recent_window_def floor_mul_def add.commute computed_mean_def)

lemma predict_try_short:
  assumes "length data \<le> 5"
  shows "predict_try tf clock data steps = Inr None"
  using assms unfolding predict_try_def Let_def
  by (auto simp: slice_last_def)

lemma predictTrend_short:
  assumes "length data \<le> 5"
  shows "predictTrend_rounded rnd tf clock data steps
           = Inr (simpleLinearPrediction_rounded rnd clock data steps)"
  by (simp add: predictTrend_rounded_def predict_try_short [OF assms])

lemma predictTrend_failed:
  assumes "predict_try tf clock data steps = Inl (e, j)"
  shows "predictTrend_rounded rnd tf clock data steps
           = Inr (simpleLinearPrediction_rounded rnd (later j clock) data steps)"
proof (cases "length data < 5")
  case True
  then have "predict_try tf clock data steps = Inr None" by (intro predict_try_short) simp
  then show ?thesis using assms by simp
next
  case False
  then show ?thesis by (simp add: predictTrend_rounded_def assms)
qed

lemma linear_value_exact:
  assumes "data \<noteq> []" and "k < nat steps"
  shows "p_value (simpleLinearPrediction clock data steps ! k)
           = Num (linear_value data (int k + 1))"
proof -
  have r: "recent_window data \<noteq> []" using assms(1) by (rule recent_window_nonempty)
  have l: "js_last (map Num data) = Num (last data)"
    using assms(1) by (simp add: js_last_def last_map)
  show ?thesis
    unfolding simpleLinearPrediction_nth [OF assms(2)] calculateSlope_refines mean_nums [OF r] l
      linear_point_value linear_value_def linear_trend_def ..
qed

text \<open>
  C4. The forecaster returns the linear prediction when the input has at most 5 samples
  (fewer than 5, or 5, which give the network fewer than three training pairs) and when
  the attempt with the network raised. Whatever the rounding, the point of the linear
  prediction at step \<open>i = k + 1\<close> is computed from the slope that \<^verbatim>\<open>calculateSlope\<close>
  returns for the recent window of \<open>max(5, floor(n * 0.3))\<close> samples, the computed mean
  of that window and the last sample. In exact arithmetic and for a non-empty input its
  value is \<open>(lastValue + slope * i) * exp(-0.12 * i) + recentMean * (1 - exp(-0.12 * i))\<close>,
  where \<open>slope\<close> is the least-squares slope of the window (0 when its denominator is
  below 0.0001 in magnitude) and \<open>recentMean\<close> its arithmetic mean; this value lies
  between the raw trend value and the mean, and it is the value that the forecaster
  returns on the routes above.
\<close>

theorem linear_forecast_value:
  assumes "k < nat steps"
  shows
    "(length data \<le> 5 \<longrightarrow>
        predictTrend_rounded rnd tf clock data steps
          = Inr (simpleLinearPrediction_rounded rnd clock data steps)) \<and>
     (predict_try tf clock data steps = Inl (e, j) \<longrightarrow>
        predictTrend_rounded rnd tf clock data steps
          = Inr (simpleLinearPrediction_rounded rnd (later j clock) data steps)) \<and>
     simpleLinearPrediction_rounded rnd clock data steps ! k
       = linear_point_rounded rnd clock (calculateSlope_rounded rnd (recent_window data))
           (computed_mean rnd (recent_window data)) (js_last (map Num data))
           steps k (int k + 1) \<and>
     (data \<noteq> [] \<longrightarrow>
        p_value (simpleLinearPrediction clock data steps ! k)
          = Num (linear_value data (int k + 1)) \<and>
        calculateSlope (recent_window data) = Num (ols_slope (recent_window data)) \<and>
        min (linear_trend data (int k + 1)) (pop_mean (recent_window data))
          \<le> linear_value data (int k + 1) \<and>
        linear_value data (int k + 1)
          \<le> max (linear_trend data (int k + 1)) (pop_mean (recent_window data)) \<and>
        (length data \<le> 5 \<or> predict_try tf clock data steps = Inl (e, j) \<longrightarrow>
           (\<exists>ps. predictTrend tf clock data steps = Inr ps \<and>
                 p_value (ps ! k) = Num (linear_value data (int k + 1)))))"
proof (intro conjI impI)
  assume "length data \<le> 5"
  then show "predictTrend_rounded rnd tf clock data steps
          = Inr (simpleLinearPrediction_rounded rnd clock data steps)"
    by (rule predictTrend_short)
next
  assume "predict_try tf clock data steps = Inl (e, j)"
  then show "predictTrend_rounded rnd tf clock data steps
          = Inr (simpleLinearPrediction_rounded rnd (later j clock) data steps)"
    by (rule predictTrend_failed)
next
  show "simpleLinearPrediction_rounded rnd clock data steps ! k
       = linear_point_rounded rnd clock (calculateSlope_rounded rnd (recent_window data))
           (computed_mean rnd (recent_window data)) (js_last (map Num data))
           steps k (int k + 1)"
    using assms by (rule simpleLinearPrediction_rounded_nth)
next
  assume "data \<noteq> []"
  then show "p_value (simpleLinearPrediction clock data steps ! k)
          = Num (linear_value data (int k + 1))"
    using assms by (rule linear_value_exact)
next
  show "calculateSlope (recent_window data) = Num (ols_slope (recent_window data))"
    by (rule calculateSlope_refines)
next
  show "min (linear_trend data (int k + 1)) (pop_mean (recent_window data))
          \<le> linear_value data (int k + 1)"
    by (rule linear_value_between(1)) simp
next
  show "linear_value data (int k + 1)
          \<le> max (linear_trend data (int k + 1)) (pop_mean (recent_window data))"
    by (rule linear_value_between(2)) simp
next
  assume ne: "data \<noteq> []"
    and "length data \<le> 5 \<or> predict_try tf clock data steps = Inl (e, j)"
  then consider "length data \<le> 5" | "predict_try tf clock data steps = Inl (e, j)" by blast
  then show "\<exists>ps. predictTrend tf clock data steps = Inr ps \<and>
                 p_value (ps ! k) = Num (linear_value data (int k + 1))"
  proof cases
    case 1
    then have "predictTrend tf clock data steps = Inr (simpleLinearPrediction clock data steps)"
      unfolding predictTrend_def simpleLinearPrediction_def by (rule predictTrend_short)
    then show ?thesis using linear_value_exact [OF ne assms] by simp
  next
    case 2
    then have "predictTrend tf clock data steps
                 = Inr (simpleLinearPrediction (later j clock) data steps)"
      unfolding predictTrend_def simpleLinearPrediction_def by (rule predictTrend_failed)
    then show ?thesis using linear_value_exact [OF ne assms] by simp
  qed
qed

lemma fit_and_rollout_broken:
  "fit_and_rollout broken_tfjs clock xs ys mean std lv seed steps = Inl (TfjsError, 0)"
  by (simp add: fit_and_rollout_def broken_tfjs_def failing_fit_def)

lemma predict_try_broken:
  assumes "5 < length data"
  shows "predict_try broken_tfjs clock data steps = Inl (TfjsError, 0)"
  using assms unfolding predict_try_def Let_def fit_and_rollout_broken
  by (auto simp: slice_last_def floor_mul_def)

lemma small_slope: "calculateSlope_rounded double_round [2, 3, 4, 5, 6] = Num 1"
  by (simp add: calculateSlope_rounded_def Let_def js_sum_rounded_def rounded_def js_sub_def
      round_threshold double_round_numeral double_round_one double_round_zero)

lemma small_mean: "computed_mean double_round [2, 3, 4, 5, 6] = Num 4"
  by (simp add: computed_mean_def js_sum_rounded_def rounded_def double_round_numeral)

text \<open>
  C4 on \<open>[7]\<close>, which is shorter than 5 samples, and on \<open>[1, 2, 3, 4, 5, 6]\<close> with a
  library whose every call raises: the window of the latter is \<open>[2, 3, 4, 5, 6]\<close>, the
  slope 1 and the mean 4, in double arithmetic as well, and the first forecast blends the
  trend value 7 with the mean.
\<close>

theorem linear_forecast_value_witness:
  "(0::nat) < nat 2 \<and> length [7::real] \<le> 5 \<and> [7::real] \<noteq> [] \<and>
   predictTrend_rounded double_round broken_tfjs (frozen_clock 0) [7] 2
     = Inr (simpleLinearPrediction_rounded double_round (frozen_clock 0) [7] 2) \<and>
   p_value (simpleLinearPrediction (frozen_clock 0) [7] 2 ! 0) = Num 7 \<and>
   predict_try broken_tfjs (frozen_clock 0) [1, 2, 3, 4, 5, 6] 2 = Inl (TfjsError, 0) \<and>
   predictTrend_rounded double_round broken_tfjs (frozen_clock 0) [1, 2, 3, 4, 5, 6] 2
     = Inr (simpleLinearPrediction_rounded double_round (frozen_clock 0) [1, 2, 3, 4, 5, 6] 2) \<and>
   simpleLinearPrediction_rounded double_round (frozen_clock 0) [1, 2, 3, 4, 5, 6] 2 ! 0
     = linear_point_rounded double_round (frozen_clock 0) (Num 1) (Num 4) (Num 6) 2 0 1 \<and>
   p_value (simpleLinearPrediction (frozen_clock 0) [1, 2, 3, 4, 5, 6] 2 ! 0)
     = Num (7 * exp (- 0.12) + 4 * (1 - exp (- 0.12))) \<and>
   calculateSlope [2, 3, 4, 5, 6] = Num 1 \<and>
   (\<exists>ps. predictTrend broken_tfjs (frozen_clock 0) [1, 2, 3, 4, 5, 6] 2 = Inr ps \<and>
         p_value (ps ! 0) = Num (7 * exp (- 0.12) + 4 * (1 - exp (- 0.12))))"
proof -
  have w1: "recent_window [7] = [7]" by (simp add: recent_window_def slice_last_def)
  have s1: "ols_slope [7] = 0" by (simp add: ols_slope_def Let_def)
  have m1: "pop_mean [7] = 7" by (simp add: pop_mean_def)
  have v1: "linear_value [7] 1 = 7"
    by (simp add: linear_value_def linear_trend_def w1 s1 m1 algebra_simps)
  have w: "recent_window [1, 2, 3, 4, 5, 6] = [2, 3, 4, 5, 6]"
    by (simp add: recent_window_def slice_last_def)
  have s: "ols_slope [2, 3, 4, 5, 6] = 1"
    by (simp add: ols_slope_def Let_def lessThan_Suc)
  have m: "pop_mean [2, 3, 4, 5, 6] = 4" by (simp add: pop_mean_def)
  have v: "linear_value [1, 2, 3, 4, 5, 6] 1 = 7 * exp (- 0.12) + 4 * (1 - exp (- 0.12))"
    by (simp add: linear_value_def linear_trend_def w s m)
  have p: "predict_try broken_tfjs (frozen_clock 0) [1, 2, 3, 4, 5, 6] 2 = Inl (TfjsError, 0)"
    by (rule predict_try_broken) simp
  have a: "predictTrend_rounded double_round broken_tfjs (frozen_clock 0) [7] 2
     = Inr (simpleLinearPrediction_rounded double_round (frozen_clock 0) [7] 2)"
    "p_value (simpleLinearPrediction (frozen_clock 0) [7] 2 ! 0) = Num 7"
    using linear_forecast_value [of 0 2 "[7]" double_round broken_tfjs "frozen_clock 0"]
    by (simp_all add: v1)
  note t = linear_forecast_value [of 0 2 "[1, 2, 3, 4, 5, 6]" double_round broken_tfjs
        "frozen_clock 0" TfjsError 0]
  have b: "predictTrend_rounded double_round broken_tfjs (frozen_clock 0) [1, 2, 3, 4, 5, 6] 2
     = Inr (simpleLinearPrediction_rounded double_round (frozen_clock 0) [1, 2, 3, 4, 5, 6] 2)"
    "p_value (simpleLinearPrediction (frozen_clock 0) [1, 2, 3, 4, 5, 6] 2 ! 0)
     = Num (7 * exp (- 0.12) + 4 * (1 - exp (- 0.12)))"
    "calculateSlope [2, 3, 4, 5, 6] = Num 1"
    "\<exists>ps. predictTrend broken_tfjs (frozen_clock 0) [1, 2, 3, 4, 5, 6] 2 = Inr ps \<and>
         p_value (ps ! 0) = Num (7 * exp (- 0.12) + 4 * (1 - exp (- 0.12)))"
    using t p by (simp_all add: w s v later_zero)
  have c: "simpleLinearPrediction_rounded double_round (frozen_clock 0) [1, 2, 3, 4, 5, 6] 2 ! 0
     = linear_point_rounded double_round (frozen_clock 0) (Num 1) (Num 4) (Num 6) 2 0 1"
    using t by (simp add: w small_slope small_mean js_last_def)
  show ?thesis using a b c p by simp
qed

lemma huge_window: "recent_window [huge, huge, huge] = [huge, huge, huge]"
  by (simp add: recent_window_def slice_last_def)

lemma huge_sum: "js_sum_rounded double_round [Num huge, Num huge, Num huge] = PInf"
  by (simp add: js_sum_rounded_def rounded_def round_huge round_twice_huge)

lemma huge_products:
  "foldl (\<lambda>sum xy. rounded double_round (js_add sum
            (rounded double_round (js_mul (Num (real (fst xy))) (Num (snd xy))))))
         (Num 0) (enumerate 0 [huge, huge, huge]) = PInf"
  by (simp add: rounded_def round_huge round_twice_huge double_round_zero)

lemma huge_slope: "calculateSlope_rounded double_round [huge, huge, huge] = NaN"
  unfolding calculateSlope_rounded_def Let_def list.map huge_sum huge_products
  by (simp add: rounded_def js_sub_def signed_inf_def round_threshold
      double_round_numeral double_round_one)

text \<open>
  C4, as the specification states it, fails in double arithmetic on large samples: on
  \<open>[huge, huge, huge]\<close> the sums of the slope overflow, the numerator is the difference
  of two infinities, and the slope and the forecast value are \<open>NaN\<close>, where the
  least-squares slope is 0 and the value of the formula is \<open>huge\<close>.
\<close>

theorem linear_forecast_overflow:
  "predictTrend_rounded double_round broken_tfjs (frozen_clock 0) [huge, huge, huge] 1
     = Inr (simpleLinearPrediction_rounded double_round (frozen_clock 0) [huge, huge, huge] 1) \<and>
   calculateSlope_rounded double_round (recent_window [huge, huge, huge]) = NaN \<and>
   p_value (simpleLinearPrediction_rounded double_round (frozen_clock 0) [huge, huge, huge] 1 ! 0)
     = NaN \<and>
   ols_slope (recent_window [huge, huge, huge]) = 0 \<and>
   linear_value [huge, huge, huge] 1 = huge"
proof -
  have a: "predictTrend_rounded double_round broken_tfjs (frozen_clock 0) [huge, huge, huge] 1
     = Inr (simpleLinearPrediction_rounded double_round (frozen_clock 0) [huge, huge, huge] 1)"
    by (rule predictTrend_short) simp
  have b: "p_value (simpleLinearPrediction_rounded double_round (frozen_clock 0)
             [huge, huge, huge] 1 ! 0) = NaN"
    unfolding simpleLinearPrediction_rounded_nth [of 0 1, simplified] huge_window huge_slope
    by (simp add: linear_point_rounded_def Let_def rounded_def js_last_def)
  have s: "ols_slope [huge, huge, huge] = 0"
    by (simp add: ols_slope_def Let_def lessThan_Suc)
  have m: "pop_mean [huge, huge, huge] = huge" by (simp add: pop_mean_def)
  have v: "linear_value [huge, huge, huge] 1 = huge"
    by (simp add: linear_value_def linear_trend_def huge_window s m algebra_simps)
  show ?thesis using a b v by (simp add: huge_window huge_slope s)
qed

end
